theory Spec2Isabelle
  imports Complex_Main "HOL-Library.Log_Nat"
begin

section \<open>Account mappings and processing priority\<close>

text \<open>
  One entry of the mapping dictionary (\<^verbatim>\<open>mapping_list[akahu_id]\<close>). A key that may be
  absent from the Python dict is an \<open>option\<close>; the two do-not-map flags are only ever
  tested for truthiness, so they are booleans (absent reads as \<open>False\<close>). Sync
  watermarks are instants, kept as seconds since the Unix epoch instead of ISO-8601 text.
\<close>

record mapping_entry =
  akahu_name :: string
  account_type :: "string option"
  actual_budget_id :: "string option"
  actual_account_id :: "string option"
  actual_do_not_map :: bool
  actual_synced_datetime :: "int option"
  ynab_budget_id :: "string option"
  ynab_account_id :: "string option"
  ynab_do_not_map :: bool
  ynab_synced_datetime :: "int option"
  akahu_balance :: "rat option"

type_synonym account_entry = "string \<times> mapping_entry"

text \<open>\<^verbatim>\<open>mapping_entry.get("account_type", "On Budget")\<close>\<close>

definition get_account_type :: "mapping_entry \<Rightarrow> string" where
  "get_account_type m = (case account_type m of None \<Rightarrow> ''On Budget'' | Some t \<Rightarrow> t)"

definition get_account_priority :: "account_entry \<Rightarrow> nat" where
  "get_account_priority account_entry =
     (let t = get_account_type (snd account_entry) in
      if t = ''On Budget'' then 0
      else if t = ''Tracking'' then 1
      else 1)"

text \<open>\<^verbatim>\<open>sorted(mapping_list.items(), key=get_account_priority)\<close>: Python's \<^verbatim>\<open>sorted\<close> is a
  stable sort on the key; so is \<^const>\<open>sort_key\<close> (insertion sort from the right).\<close>

definition sorted_accounts :: "account_entry list \<Rightarrow> account_entry list" where
  "sorted_accounts mapping_list = sort_key get_account_priority mapping_list"


section \<open>Source transactions and transcoding\<close>

text \<open>The exceptions that leave the functions modelled here.\<close>

datatype error =
    FetchFailed
  | DatabaseError
  | InvalidOperation
  | OverflowError
  | ProcessFailed
  | CommitFailed
  | PostFailed
  | TypeError
  | KeyError
  | DownloadFailed
  | NoActiveException

text \<open>
  A transaction as delivered by the feed. The \<^verbatim>\<open>date\<close> field is text in the source; the
  model keeps the outcome of reading it: the key is absent from the row (the frame then
  holds \<^verbatim>\<open>NaN\<close> in that cell), the value is null, the text does not parse with the format
  \<^verbatim>\<open>%Y-%m-%dT%H:%M:%SZ\<close> (after fractional seconds are cut off), or it is a UTC instant in
  seconds since the epoch. The amount is the number written in the JSON text, in dollars;
  Python reads it as a binary64 floating-point number (see \<open>round_to_double\<close> below).
\<close>

datatype src_date = DateMissing | DateNull | DateMalformed | DateUTC int

datatype merchant = NoMerchant | MerchantDict "string option" | MerchantMalformed

record akahu_txn =
  txn_id :: string
  txn_date :: src_date
  txn_amount :: rat
  txn_description :: string
  txn_merchant :: merchant

text \<open>\<^verbatim>\<open>convert_to_nzt\<close>: thirteen hours are added and the calendar day (days since the
  epoch) is returned; \<^verbatim>\<open>None\<close> for a null or unparsable date. On a \<^verbatim>\<open>NaN\<close> cell the test
  \<^verbatim>\<open>"." in date_str\<close> raises \<^verbatim>\<open>TypeError\<close>, which the function does not catch.\<close>

fun convert_to_nzt :: "src_date \<Rightarrow> error + int option" where
  "convert_to_nzt DateMissing = Inl TypeError"
| "convert_to_nzt DateNull = Inr None"
| "convert_to_nzt DateMalformed = Inr None"
| "convert_to_nzt (DateUTC t) = Inr (Some ((t + 13 * 3600) div 86400))"

text \<open>\<^verbatim>\<open>get_payee_name\<close>: the merchant's name when there is one, else the description;
  \<^verbatim>\<open>"Unknown"\<close> when the lookup raises \<^verbatim>\<open>TypeError\<close> or \<^verbatim>\<open>ValueError\<close>.\<close>

fun get_payee_name :: "akahu_txn \<Rightarrow> string" where
  "get_payee_name row =
     (case txn_merchant row of
        NoMerchant \<Rightarrow> txn_description row
      | MerchantDict None \<Rightarrow> txn_description row
      | MerchantDict (Some n) \<Rightarrow> n
      | MerchantMalformed \<Rightarrow> ''Unknown'')"

subsection \<open>Python numbers\<close>

text \<open>Python's \<^verbatim>\<open>int(x)\<close> on a number: truncation towards zero.\<close>

definition py_int :: "rat \<Rightarrow> int" where
  "py_int x = (if 0 \<le> x then \<lfloor>x\<rfloor> else \<lceil>x\<rceil>)"

text \<open>Rounding to the nearest integer, ties to the even one.\<close>

definition round_half_even :: "rat \<Rightarrow> int" where
  "round_half_even x =
     (let f = \<lfloor>x\<rfloor>; r = x - of_int f in
      if r < 1 / 2 then f
      else if 1 / 2 < r then f + 1
      else if even f then f else f + 1)"

text \<open>
  A Python \<^verbatim>\<open>float\<close> is an IEEE 754 binary64 number. A finite one is the rational it
  denotes; \<open>None\<close> stands for an infinity. For \<open>x \<noteq> 0\<close>, \<open>binade x\<close> is the exponent \<open>e\<close>
  with \<open>2 powi e \<le> \<bar>x\<bar> < 2 powi (e + 1)\<close>. \<open>round_to_double\<close> is the rounding every float
  operation ends with, and the reading of a JSON number: to the nearest number with 53
  significant bits (with the spacing \<open>2 powi (- 1074)\<close> below \<open>2 powi (- 1022)\<close>), ties to the
  even one, and to an infinity from \<open>2 powi 1024\<close> on.
\<close>

definition binade :: "rat \<Rightarrow> int" where
  "binade x =
     (case quotient_of \<bar>x\<bar> of
        (p, q) \<Rightarrow> (let k = bitlen p - bitlen q in if 2 powi k \<le> \<bar>x\<bar> then k else k - 1))"

definition round_to_double :: "rat \<Rightarrow> rat option" where
  "round_to_double x =
     (if x = 0 then Some 0
      else
        (let e = max (binade x) (- 1022);
             u = 2 powi (e - 52);
             r = of_int (round_half_even (x / u)) * u
         in if 2 powi 1024 \<le> \<bar>r\<bar> then None else Some r))"

text \<open>\<^verbatim>\<open>a * b\<close> on two finite floats.\<close>

definition float_mul :: "rat \<Rightarrow> rat \<Rightarrow> rat option" where
  "float_mul a b = round_to_double (a * b)"

text \<open>\<^verbatim>\<open>int(x * 1000)\<close> for the float read from the JSON number \<open>x\<close>; \<^verbatim>\<open>int\<close> of an
  infinity raises \<^verbatim>\<open>OverflowError\<close>.\<close>

definition int_times_1000 :: "rat \<Rightarrow> error + int" where
  "int_times_1000 x =
     (case round_to_double x of
        None \<Rightarrow> Inl OverflowError
      | Some d \<Rightarrow>
          (case float_mul d 1000 of
             None \<Rightarrow> Inl OverflowError
           | Some p \<Rightarrow> Inr (py_int p)))"

subsection \<open>Destination A\<close>

text \<open>The transcoded record for destination A. The source stores the amount as the
  decimal text of an integer, \<^verbatim>\<open>str(int(x * 1000))\<close>; the model keeps the integer.\<close>

record ynab_txn =
  y_id :: string
  y_date :: "int option"
  y_amount :: int
  y_memo :: string
  y_payee_name :: string
  y_cleared :: string
  y_import_id :: string
  y_flag_color :: string
  y_account_id :: string

definition ynab_amount :: "rat \<Rightarrow> error + int" where
  "ynab_amount x = int_times_1000 x"

text \<open>Applying a function that may raise down a column: the first exception ends it.\<close>

fun apply_column :: "('a \<Rightarrow> error + 'b) \<Rightarrow> 'a list \<Rightarrow> error + 'b list" where
  "apply_column f [] = Inr []"
| "apply_column f (x # xs) =
     (case f x of
        Inl err \<Rightarrow> Inl err
      | Inr y \<Rightarrow> (case apply_column f xs of Inl err \<Rightarrow> Inl err | Inr ys \<Rightarrow> Inr (y # ys)))"

definition clean_row_for_ynab :: "string \<Rightarrow> akahu_txn \<Rightarrow> int \<Rightarrow> int option \<Rightarrow> ynab_txn" where
  "clean_row_for_ynab ynab_acct row amount date =
     \<lparr> y_id = txn_id row,
       y_date = date,
       y_amount = amount,
       y_memo = txn_description row,
       y_payee_name = get_payee_name row,
       y_cleared = ''cleared'',
       y_import_id = txn_id row,
       y_flag_color = ''red'',
       y_account_id = ynab_acct \<rparr>"

text \<open>\<^verbatim>\<open>clean_txn_for_ynab\<close> works column by column: the amounts of all rows are
  converted first, then the dates.\<close>

definition clean_txn_for_ynab :: "akahu_txn list \<Rightarrow> string \<Rightarrow> error + ynab_txn list" where
  "clean_txn_for_ynab akahu_txns ynab_acct =
     (case apply_column (\<lambda>row. ynab_amount (txn_amount row)) akahu_txns of
        Inl err \<Rightarrow> Inl err
      | Inr amounts \<Rightarrow>
          (case apply_column (\<lambda>row. convert_to_nzt (txn_date row)) akahu_txns of
             Inl err \<Rightarrow> Inl err
           | Inr dates \<Rightarrow>
               Inr (map (\<lambda>(row, amount, date). clean_row_for_ynab ynab_acct row amount date)
                      (zip akahu_txns (zip amounts dates)))))"

subsection \<open>Destination B\<close>

text \<open>
  \<^verbatim>\<open>decimal.Decimal(amount).quantize(decimal.Decimal("0.0001"))\<close>. A decimal is a coefficient
  and an exponent. \<^verbatim>\<open>Decimal\<close> of a float is the exact value of the float. The default
  context rounds half to even and has 28 digits of precision: a result whose coefficient
  needs more digits signals \<^verbatim>\<open>InvalidOperation\<close>, and so does quantising an infinity.
\<close>

datatype decimal = Decimal (coefficient: int) (exponent: int)

definition decimal_value :: "decimal \<Rightarrow> rat" where
  "decimal_value d = of_int (coefficient d) * 10 powi (exponent d)"

definition quantize_amount :: "rat \<Rightarrow> error + decimal" where
  "quantize_amount x =
     (case round_to_double x of
        None \<Rightarrow> Inl InvalidOperation
      | Some d \<Rightarrow>
          (let c = round_half_even (d * 10000) in
           if 10 ^ 28 \<le> \<bar>c\<bar> then Inl InvalidOperation else Inr (Decimal c (- 4))))"

text \<open>The spec's wording for destination A, for comparison: \<^verbatim>\<open>round(dollars \<times> 1000)\<close>.\<close>

definition spec_milliunits :: "rat \<Rightarrow> int" where
  "spec_milliunits x = round (x * 1000)"

section \<open>Source feed reader\<close>

text \<open>
  One page of the feed's JSON answer: the \<^verbatim>\<open>items\<close> and the optional \<^verbatim>\<open>cursor\<close> object with
  its optional \<^verbatim>\<open>next\<close> token (a key can be absent, or present with the value null). The
  feed is the aggregator's answer to a request for an account, a \<^verbatim>\<open>start\<close> instant and
  an optional \<^verbatim>\<open>cursor\<close> parameter; a transport error or a non-2xx status is
  \<open>RequestException\<close>.
\<close>

datatype next_field = NextAbsent | NextNull | NextToken string

datatype cursor_field = CursorAbsent | CursorNull | CursorDict next_field

record page =
  items :: "akahu_txn list"
  cursor :: cursor_field

datatype response = RequestException | Page page

type_synonym feed = "string \<Rightarrow> int \<Rightarrow> string option \<Rightarrow> response"

text \<open>The fixed epoch \<^verbatim>\<open>2025-05-05T00:00:00Z\<close> and one week, in seconds.\<close>

definition default_epoch :: int where
  "default_epoch = 1746403200"

definition one_week :: int where
  "one_week = 604800"

text \<open>
  The \<^verbatim>\<open>while next_cursor is not None\<close> loop of \<^verbatim>\<open>get_all_akahu\<close>. \<open>qcursor\<close> is the
  \<^verbatim>\<open>cursor\<close> entry of \<^verbatim>\<open>query_params\<close> (it stays set from one round to the next),
  \<open>next_cursor\<close> the loop variable, \<open>res\<close> the rows accumulated so far and \<open>reqs\<close> the
  cursor parameters of the requests made so far. The loop runs for as long as the feed
  hands out tokens, so it is a partial function: \<open>None\<close> is a fetch that never returns.
  Evaluating \<^verbatim>\<open>"next" in akahu_txn_json["cursor"]\<close> on a null cursor raises
  \<^verbatim>\<open>TypeError\<close>, which the function does not catch.
\<close>

partial_function (option) akahu_pages ::
  "(string option \<Rightarrow> response) \<Rightarrow> string option \<Rightarrow> string \<Rightarrow> akahu_txn list \<Rightarrow>
   string option list \<Rightarrow> (error + akahu_txn list \<times> string option list) option"
where
  "akahu_pages ask qcursor next_cursor res reqs =
     (let q = (if next_cursor \<noteq> ''first time'' then Some next_cursor else qcursor) in
      case ask q of
        RequestException \<Rightarrow> Some (Inl FetchFailed)
      | Page p \<Rightarrow>
          (let res' = res @ items p; reqs' = reqs @ [q] in
           if items p \<noteq> [] then
             (case cursor p of
                CursorAbsent \<Rightarrow> Some (Inr (res', reqs'))
              | CursorNull \<Rightarrow> Some (Inl TypeError)
              | CursorDict NextAbsent \<Rightarrow> Some (Inr (res', reqs'))
              | CursorDict NextNull \<Rightarrow> Some (Inr (res', reqs'))
              | CursorDict (NextToken t) \<Rightarrow> akahu_pages ask q t res' reqs')
           else Some (Inr (res', reqs'))))"

text \<open>The \<^verbatim>\<open>start\<close> parameter: one week before the watermark, or the fixed epoch when
  the caller passes no watermark.\<close>

definition start_time :: "int option \<Rightarrow> int" where
  "start_time last_reconciled_at =
     (case last_reconciled_at of Some t \<Rightarrow> t - one_week | None \<Rightarrow> default_epoch)"

definition get_all_akahu ::
  "feed \<Rightarrow> string \<Rightarrow> int option \<Rightarrow> (error + akahu_txn list \<times> string option list) option"
where
  "get_all_akahu fd akahu_account_id last_reconciled_at =
     akahu_pages (fd akahu_account_id (start_time last_reconciled_at)) None ''first time'' [] []"

text \<open>
  A feed that returns the pages \<open>ps\<close>, one per request, starting with the request whose
  cursor parameter is \<open>q\<close>: every page but the last carries records and a next token,
  and the last page ends the pagination (it has zero records, no cursor, or a cursor
  without a next token).
\<close>

definition last_page :: "page \<Rightarrow> bool" where
  "last_page p =
     (items p = [] \<or> cursor p = CursorAbsent \<or> cursor p = CursorDict NextAbsent
      \<or> cursor p = CursorDict NextNull)"

definition next_query :: "string option \<Rightarrow> string \<Rightarrow> string option" where
  "next_query q t = (if t \<noteq> ''first time'' then Some t else q)"

fun returns_pages :: "(string option \<Rightarrow> response) \<Rightarrow> string option \<Rightarrow> page list \<Rightarrow> bool" where
  "returns_pages ask q [] = False"
| "returns_pages ask q [p] = (ask q = Page p \<and> last_page p)"
| "returns_pages ask q (p # p' # ps) =
     (ask q = Page p \<and> items p \<noteq> [] \<and>
      (case cursor p of
         CursorDict (NextToken t) \<Rightarrow> returns_pages ask (next_query q t) (p' # ps)
       | _ \<Rightarrow> False))"

section \<open>Destination B: the local-first ledger\<close>

text \<open>
  The ledger library (\<^verbatim>\<open>actual.queries\<close>) and \<^verbatim>\<open>modules.account_fetcher\<close> are not among
  the sources. The session is modelled as the list of transaction rows it holds, oldest
  first; amounts are stored in cents. The import key of a row is the source transaction
  id, or the key \<^verbatim>\<open>adjustment_<timestamp>\<close> of a balance adjustment; the notes of an
  adjustment are the sentence built from the old and the new balance.
\<close>

datatype import_key = SourceId string | AdjustmentAt int

datatype memo = Memo string | AdjustedFromTo int int

record actual_txn =
  t_id :: nat
  t_date :: int
  t_account :: string
  t_payee :: string
  t_notes :: memo
  t_amount :: int
  t_financial_id :: "import_key option"
  t_cleared :: bool
  t_tombstone :: bool

text \<open>A transaction as the remote budget service (destination A) holds it. It names
  its budget and account; only imported transactions carry an import id.\<close>

record ynab_posted =
  p_budget_id :: string
  p_account_id :: string
  p_date :: "int option"
  p_amount :: int
  p_payee_name :: string
  p_import_id :: "string option"

text \<open>Dependencies of a pass that the engine does not own: the feed, the source
  balances, the ledger's name cache, rule set, commit, server synchronisation and budget
  download (with the configuration flag \<^verbatim>\<open>FORCE_REFRESH\<close>), the remote budget service, and
  the clock (\<open>now\<close>, in seconds since the epoch; the UTC calendar day is \<open>now div 86400\<close>,
  and \<open>today_local\<close> is the calendar day of the machine's time zone).
  A rule set maps a row to the row it leaves behind, or to \<open>None\<close> when running it raises.\<close>

record env =
  feed_of :: feed
  akahu_balance_of :: "string \<Rightarrow> rat option"
  names_ok :: bool
  ruleset_ok :: bool
  ruleset :: "(actual_txn \<Rightarrow> actual_txn option) option"
  commit_ok :: "actual_txn list \<Rightarrow> bool"
  remote_sync_ok :: bool
  force_refresh :: bool
  download_ok :: bool
  ynab_post_ok :: "ynab_posted list \<Rightarrow> bool"
  now :: int
  today_local :: int

definition today :: "env \<Rightarrow> int" where
  "today e = now e div 86400"

text \<open>Modelled from the spec: the ledger stores amounts in cents; the library's
  conversion from a dollar amount is missing from the sources and is taken as rounding
  (half to even) of dollars \<open>\<times>\<close> 100.\<close>

definition cents_of_dollars :: "rat \<Rightarrow> int" where
  "cents_of_dollars x = round_half_even (x * 100)"

text \<open>Modelled from the spec: \<^verbatim>\<open>create_transaction\<close> of the ledger library is missing from
  the sources. It adds a new row carrying the idempotency key, payee, memo, amount and
  cleared flag (spec 4.3, step 3) and returns it.\<close>

definition create_transaction ::
  "actual_txn list \<Rightarrow> int \<Rightarrow> string \<Rightarrow> string \<Rightarrow> memo \<Rightarrow> rat \<Rightarrow> import_key \<Rightarrow> bool \<Rightarrow>
   actual_txn list \<times> actual_txn"
where
  "create_transaction s date account payee notes amount imported_id cleared =
     (let r = \<lparr> t_id = length s, t_date = date, t_account = account, t_payee = payee,
                t_notes = notes, t_amount = cents_of_dollars amount,
                t_financial_id = Some imported_id, t_cleared = cleared,
                t_tombstone = False \<rparr>
      in (s @ [r], r))"

text \<open>Modelled from the spec: \<^verbatim>\<open>match_transaction\<close> of the ledger library is missing from
  the sources (spec 6 consumes it through \<^verbatim>\<open>matchOrCreateTransaction\<close>). It follows what the
  library documents. The strongest match is a row of the account that is not tombstoned
  and carries the import id. Failing that, a row matches when it belongs to the account,
  is not tombstoned, has the same amount in cents, is dated at most seven days away and
  has not been matched earlier in this batch; among those a row with the same payee is
  preferred, then the one closest in date.\<close>

definition id_match :: "string \<Rightarrow> import_key \<Rightarrow> actual_txn \<Rightarrow> bool" where
  "id_match account imported_id r =
     (\<not> t_tombstone r \<and> t_account r = account \<and> t_financial_id r = Some imported_id)"

definition fuzzy_match :: "int \<Rightarrow> string \<Rightarrow> int \<Rightarrow> actual_txn list \<Rightarrow> actual_txn \<Rightarrow> bool" where
  "fuzzy_match date account cents already_matched r =
     (\<not> t_tombstone r \<and> t_account r = account \<and> t_amount r = cents \<and>
      date - 7 \<le> t_date r \<and> t_date r \<le> date + 7 \<and>
      t_id r \<notin> set (map t_id already_matched))"

definition closest :: "int \<Rightarrow> actual_txn list \<Rightarrow> actual_txn option" where
  "closest date rs =
     (if rs = [] then None else Some (arg_min_list (\<lambda>r. \<bar>t_date r - date\<bar>) rs))"

definition match_transaction ::
  "actual_txn list \<Rightarrow> int \<Rightarrow> string \<Rightarrow> string \<Rightarrow> rat \<Rightarrow> import_key \<Rightarrow> actual_txn list \<Rightarrow>
   actual_txn option"
where
  "match_transaction s date account payee amount imported_id already_matched =
     (case find (id_match account imported_id) s of
        Some m \<Rightarrow> Some m
      | None \<Rightarrow>
          (let results = filter (fuzzy_match date account (cents_of_dollars amount)
                                   already_matched) s;
               same_payee = filter (\<lambda>r. t_payee r = payee) results
           in if same_payee \<noteq> [] then closest date same_payee else closest date results))"

text \<open>Modelled from the spec: \<^verbatim>\<open>reconcile_transaction\<close> of the ledger library is missing
  from the sources (spec 6, \<^verbatim>\<open>matchOrCreateTransaction\<close>). A match is returned as it is
  unless \<open>update_existing\<close> asks for its notes and date to be overwritten; without a match a
  row is created. The third component is what \<^verbatim>\<open>changed()\<close> answers for the returned row:
  whether the session holds a modification of it that is not in the database yet.\<close>

definition reconcile_transaction ::
  "actual_txn list \<Rightarrow> int \<Rightarrow> string \<Rightarrow> string \<Rightarrow> memo \<Rightarrow> rat \<Rightarrow> import_key \<Rightarrow> bool \<Rightarrow>
   actual_txn list \<Rightarrow> bool \<Rightarrow> actual_txn list \<times> actual_txn \<times> bool"
where
  "reconcile_transaction s date account payee notes amount imported_id cleared
       already_matched update_existing =
     (case match_transaction s date account payee amount imported_id already_matched of
        Some m \<Rightarrow>
          if update_existing then
            (let m' = m\<lparr> t_notes := notes, t_date := date \<rparr> in
             (map (\<lambda>r. if t_id r = t_id m then m' else r) s, m', m' \<noteq> m))
          else (s, m, False)
      | None \<Rightarrow>
          (let (s', r) = create_transaction s date account payee notes amount imported_id cleared
           in (s', r, True)))"

text \<open>Modelled from the spec: \<^verbatim>\<open>get_actual_balance\<close> (\<^verbatim>\<open>modules.account_fetcher\<close>) is
  missing from the sources. The destination balance of an account, in cents, is the sum
  of the amounts of its rows that are not tombstoned.\<close>

definition get_actual_balance :: "actual_txn list \<Rightarrow> string \<Rightarrow> int" where
  "get_actual_balance s account =
     sum_list (map t_amount (filter (\<lambda>r. t_account r = account \<and> \<not> t_tombstone r) s))"

subsection \<open>Loading transactions\<close>

text \<open>
  The loop of \<^verbatim>\<open>load_transactions_into_actual\<close> over the rows of the frame. \<open>s\<close> is the
  session, \<open>imported\<close> the list \<^verbatim>\<open>imported_transactions\<close>. The amount is quantised before
  the \<^verbatim>\<open>try\<close> block; inside it, \<^verbatim>\<open>convert_to_nzt\<close> may raise, a date that it turns into
  \<^verbatim>\<open>None\<close> makes \<^verbatim>\<open>strptime\<close> raise, and a rule set may raise: all of these leave as
  \<^verbatim>\<open>RuntimeError\<close> (\<open>ProcessFailed\<close>). The rule set works on the row just created, the last of the session.
  A row whose \<^verbatim>\<open>changed()\<close> is false is skipped by \<^verbatim>\<open>continue\<close>. When
  \<open>debug_mode\<close> is the id of the row, the source calls \<^verbatim>\<open>match_transaction\<close> and
  \<^verbatim>\<open>create_transaction\<close> itself instead of \<^verbatim>\<open>reconcile_transaction\<close>.
\<close>

definition reconcile_row ::
  "string option \<Rightarrow> actual_txn list \<Rightarrow> int \<Rightarrow> string \<Rightarrow> akahu_txn \<Rightarrow> decimal \<Rightarrow> actual_txn list \<Rightarrow>
   actual_txn list \<times> actual_txn \<times> bool"
where
  "reconcile_row debug_mode s parsed_date account txn amount imported =
     (let payee_name = txn_description txn;
          notes = Memo (txn_description txn);
          imported_id = SourceId (txn_id txn)
      in
      if debug_mode = Some (txn_id txn) then
        (case match_transaction s parsed_date account payee_name (decimal_value amount)
                imported_id imported of
           Some m \<Rightarrow> (s, m, False)
         | None \<Rightarrow>
             (let (s', r) = create_transaction s parsed_date account payee_name notes
                               (decimal_value amount) imported_id True
              in (s', r, True)))
      else
        reconcile_transaction s parsed_date account payee_name notes (decimal_value amount)
          imported_id True imported False)"

fun load_rows ::
  "env \<Rightarrow> string option \<Rightarrow> string \<Rightarrow> akahu_txn list \<Rightarrow> actual_txn list \<Rightarrow> actual_txn list \<Rightarrow>
   actual_txn list \<times> (error + actual_txn list)"
where
  "load_rows e debug_mode account [] s imported = (s, Inr imported)"
| "load_rows e debug_mode account (txn # rest) s imported =
     (case quantize_amount (txn_amount txn) of
        Inl err \<Rightarrow> (s, Inl err)
      | Inr amount \<Rightarrow>
          (case convert_to_nzt (txn_date txn) of
             Inl err \<Rightarrow> (s, Inl ProcessFailed)
           | Inr None \<Rightarrow> (s, Inl ProcessFailed)
           | Inr (Some parsed_date) \<Rightarrow>
               (case reconcile_row debug_mode s parsed_date account txn amount imported of
                  (s1, rt, changed) \<Rightarrow>
                    if \<not> changed then load_rows e debug_mode account rest s1 imported
                    else
                      (case ruleset e of
                         None \<Rightarrow> load_rows e debug_mode account rest s1 (imported @ [rt])
                       | Some run \<Rightarrow>
                           (case run rt of
                              None \<Rightarrow> (s1, Inl ProcessFailed)
                            | Some rt' \<Rightarrow>
                                load_rows e debug_mode account rest
                                  (butlast s1 @ [rt']) (imported @ [rt']))))))"

text \<open>
  \<^verbatim>\<open>load_transactions_into_actual\<close>. The result is the session and the mapping entry as
  the call leaves them, and the exception raised or the value returned (\<^verbatim>\<open>None\<close> for an
  empty frame, else the number of imported rows). The entry's watermark is set in memory
  before the commit.
\<close>

definition load_transactions_into_actual ::
  "env \<Rightarrow> string option \<Rightarrow> akahu_txn list \<Rightarrow> mapping_entry \<Rightarrow> actual_txn list \<Rightarrow>
   (actual_txn list \<times> mapping_entry) \<times> (error + nat option)"
where
  "load_transactions_into_actual e debug_mode transactions m s =
     (if transactions = [] then ((s, m), Inr None)
      else
        (case actual_account_id m of
           None \<Rightarrow> ((s, m), Inl KeyError)
         | Some account \<Rightarrow>
             if \<not> names_ok e then ((s, m), Inl DatabaseError)
             else if \<not> ruleset_ok e then ((s, m), Inl DatabaseError)
             else
               (case load_rows e debug_mode account transactions s [] of
                  (s', Inl err) \<Rightarrow> ((s', m), Inl err)
                | (s', Inr imported) \<Rightarrow>
                    (let m' = m\<lparr> actual_synced_datetime := Some (now e) \<rparr> in
                     if commit_ok e s' then ((s', m'), Inr (Some (length imported)))
                     else ((s', m'), Inl CommitFailed)))))"

subsection \<open>Tracking accounts\<close>

text \<open>\<^verbatim>\<open>handle_tracking_account_actual\<close>: the source balance is read from the mapping
  entry and cut to whole cents, \<^verbatim>\<open>int(Decimal(str(dollars)) * 100)\<close>. \<^verbatim>\<open>str\<close> of a float
  is the shortest decimal that reads back as that float, which is the number the feed
  wrote (for a number of at most 15 significant digits); from there on the arithmetic is
  decimal and exact, so the entry's balance stands for that number.\<close>

definition handle_tracking_account_actual ::
  "env \<Rightarrow> mapping_entry \<Rightarrow> actual_txn list \<Rightarrow> actual_txn list \<times> (error + nat)"
where
  "handle_tracking_account_actual e m s =
     (case actual_account_id m of
        None \<Rightarrow> (s, Inl KeyError)
      | Some account \<Rightarrow>
          (case akahu_balance m of
             None \<Rightarrow> (s, Inl KeyError)
           | Some akahu_balance_dollars \<Rightarrow>
               (let actual_balance_cents = get_actual_balance s account;
                    akahu_balance_cents = py_int (akahu_balance_dollars * 100)
                in
                if akahu_balance_cents \<noteq> actual_balance_cents then
                  (let adjustment_dollars =
                         of_int (akahu_balance_cents - actual_balance_cents) / 100;
                       (s', r) = create_transaction s (today e) account ''Balance Adjustment''
                                   (AdjustedFromTo actual_balance_cents akahu_balance_cents)
                                   adjustment_dollars (AdjustmentAt (now e)) True
                   in if commit_ok e s' then (s', Inr 1) else (s', Inl CommitFailed))
                else (s, Inr 0))))"




section \<open>Destination A: the remote budget service\<close>

text \<open>Modelled from the spec: \<^verbatim>\<open>get_ynab_balance\<close> (\<^verbatim>\<open>modules.account_fetcher\<close>) is missing
  from the sources. The balance of an account, in milliunits, is the sum of the amounts
  of its transactions.\<close>

definition get_ynab_balance :: "ynab_posted list \<Rightarrow> string \<Rightarrow> string \<Rightarrow> int" where
  "get_ynab_balance srv budget account =
     sum_list (map p_amount
       (filter (\<lambda>p. p_budget_id p = budget \<and> p_account_id p = account) srv))"

text \<open>
  \<^verbatim>\<open>create_adjustment_txn_ynab\<close>: a difference of zero returns at once; otherwise one
  transaction is posted. A transport error or a non-2xx answer is logged and raised again
  (\<open>PostFailed\<close>), and the service holds nothing new.
\<close>

definition create_adjustment_txn_ynab ::
  "env \<Rightarrow> string \<Rightarrow> string \<Rightarrow> int \<Rightarrow> int \<Rightarrow> ynab_posted list \<Rightarrow>
   ynab_posted list \<times> (error + unit)"
where
  "create_adjustment_txn_ynab e budget account akahu_bal ynab_bal srv =
     (let balance_difference = akahu_bal - ynab_bal in
      if balance_difference = 0 then (srv, Inr ())
      else
        (let transaction = \<lparr> p_budget_id = budget, p_account_id = account,
                               p_date = Some (today_local e),
                               p_amount = balance_difference,
                               p_payee_name = ''Balance Adjustment'',
                               p_import_id = None \<rparr>
         in if ynab_post_ok e [transaction] then (srv @ [transaction], Inr ())
            else (srv, Inl PostFailed)))"

text \<open>Modelled from the spec: what the service does with a batch is not in the sources.
  It skips every transaction whose import id it already holds for that account and
  reports it as a duplicate, and creates the others (spec 4.4 and 6).\<close>

definition ynab_known :: "ynab_posted list \<Rightarrow> ynab_posted \<Rightarrow> bool" where
  "ynab_known srv p =
     (p_import_id p \<noteq> None \<and>
      list_ex (\<lambda>q. p_budget_id q = p_budget_id p \<and> p_account_id q = p_account_id p \<and>
                   p_import_id q = p_import_id p) srv)"

fun ynab_accept :: "ynab_posted list \<Rightarrow> ynab_posted list \<Rightarrow> ynab_posted list \<times> ynab_posted list" where
  "ynab_accept srv [] = (srv, [])"
| "ynab_accept srv (p # ps) =
     (if ynab_known srv p then ynab_accept srv ps
      else (case ynab_accept (srv @ [p]) ps of (srv', created) \<Rightarrow> (srv', p # created)))"

text \<open>\<^verbatim>\<open>load_transactions_into_ynab\<close>: one request for the whole batch; the count returned
  is the number of transactions the service reports as created.\<close>

definition payload_of :: "string \<Rightarrow> ynab_txn \<Rightarrow> ynab_posted" where
  "payload_of budget t =
     \<lparr> p_budget_id = budget, p_account_id = y_account_id t, p_date = y_date t,
       p_amount = y_amount t, p_payee_name = y_payee_name t,
       p_import_id = Some (y_import_id t) \<rparr>"

definition load_transactions_into_ynab ::
  "env \<Rightarrow> ynab_txn list \<Rightarrow> string \<Rightarrow> string \<Rightarrow> ynab_posted list \<Rightarrow>
   ynab_posted list \<times> (error + nat)"
where
  "load_transactions_into_ynab e akahu_txn budget account srv =
     (let transactions_list = map (payload_of budget) akahu_txn in
      if \<not> ynab_post_ok e transactions_list then (srv, Inl PostFailed)
      else (case ynab_accept srv transactions_list of
              (srv', created) \<Rightarrow> (srv', Inr (length created))))"

section \<open>Sync orchestrator\<close>

text \<open>
  The mapping file on disk (\<^verbatim>\<open>load_existing_mapping\<close> / \<^verbatim>\<open>save_mapping\<close>, whose module is
  not among the sources) is the list of its entries; saving is assumed to succeed, and the
  three reference lists it also holds pass through unchanged.
  \<^verbatim>\<open>update_mapping_timestamps\<close> reads the file, stamps the current time on every entry
  whose id is in a set of successful syncs and whose do-not-map flag for that destination
  is not set, and writes it back.
\<close>

definition update_mapping_timestamps ::
  "string set \<Rightarrow> string set \<Rightarrow> int \<Rightarrow> account_entry list \<Rightarrow> account_entry list"
where
  "update_mapping_timestamps successful_ab_syncs successful_ynab_syncs current_time mappings =
     map (\<lambda>(akahu_id, m).
            (akahu_id,
             (let m1 = (if akahu_id \<in> successful_ab_syncs \<and> \<not> actual_do_not_map m
                        then m\<lparr> actual_synced_datetime := Some current_time \<rparr> else m)
              in if akahu_id \<in> successful_ynab_syncs \<and> \<not> ynab_do_not_map m1
                 then m1\<lparr> ynab_synced_datetime := Some current_time \<rparr> else m1)))
         mappings"

text \<open>Python truthiness of an id read with \<^verbatim>\<open>.get\<close>: present and not the empty string.\<close>

definition truthy :: "string option \<Rightarrow> bool" where
  "truthy x = (case x of None \<Rightarrow> False | Some v \<Rightarrow> v \<noteq> [])"

text \<open>Log lines of the dispatch that the claims speak of: the level and the account.\<close>

datatype log_level = LDebug | LWarning | LError

datatype log_line = Log log_level string

text \<open>
  A \<^verbatim>\<open>for\<close> loop over the sorted accounts: the body either goes on to the next account
  (\<^verbatim>\<open>continue\<close>, or falling off its end) or raises, which ends the loop; a body that never
  returns is \<open>None\<close>. The log lines are collected in order.
\<close>

fun for_each ::
  "('a \<Rightarrow> 's \<Rightarrow> (log_line list \<times> 's \<times> (error + unit)) option) \<Rightarrow> 'a list \<Rightarrow> 's \<Rightarrow>
   (log_line list \<times> 's \<times> (error + unit)) option"
where
  "for_each body [] st = Some ([], st, Inr ())"
| "for_each body (x # rest) st =
     (case body x st of
        None \<Rightarrow> None
      | Some (l, st', Inl err) \<Rightarrow> Some (l, st', Inl err)
      | Some (l, st', Inr u) \<Rightarrow>
          (case for_each body rest st' of
             None \<Rightarrow> None
           | Some (l', st'', r) \<Rightarrow> Some (l @ l', st'', r)))"

text \<open>
  What a pass over destination B has built up: the ledger session, the entries of
  \<^verbatim>\<open>mapping_list\<close> it has mutated in place (with their new contents, in processing order),
  the set \<^verbatim>\<open>successful_ab_syncs\<close> and the counter \<^verbatim>\<open>transactions_uploaded\<close>.
\<close>

record ab_state =
  session :: "actual_txn list"
  ab_entries :: "account_entry list"
  successful_ab_syncs :: "string set"
  ab_uploaded :: nat

text \<open>
  The body of the \<^verbatim>\<open>for\<close> loop of \<^verbatim>\<open>sync_to_ab\<close> for one account. The result is \<open>None\<close>
  when the fetch never returns; otherwise the log lines written, the state, and either the
  exception that leaves the loop or \<open>()\<close> for going on to the next account. The last
  branch is the bare \<^verbatim>\<open>raise\<close>: with no exception being handled, Python raises
  \<^verbatim>\<open>RuntimeError: No active exception to reraise\<close>.
\<close>

definition step_ab ::
  "env \<Rightarrow> string option \<Rightarrow> account_entry \<Rightarrow> ab_state \<Rightarrow>
   (log_line list \<times> ab_state \<times> (error + unit)) option"
where
  "step_ab e debug_mode entry st =
     (let akahu_account_id = fst entry; mapping_entry = snd entry;
          account_type = get_account_type mapping_entry;
          last_reconciled_at =
            (case actual_synced_datetime mapping_entry of
               None \<Rightarrow> default_epoch | Some t \<Rightarrow> t)
      in
      if actual_do_not_map mapping_entry then
        Some ([Log LDebug akahu_account_id], st, Inr ())
      else if \<not> (truthy (actual_budget_id mapping_entry) \<and>
                  truthy (actual_account_id mapping_entry)) then
        Some ([Log LWarning akahu_account_id], st, Inr ())
      else if account_type = ''Tracking'' then
        (case akahu_balance_of e akahu_account_id of
           None \<Rightarrow> Some ([Log LError akahu_account_id], st, Inr ())
         | Some bal \<Rightarrow>
             (let m' = mapping_entry\<lparr> akahu_balance := Some bal \<rparr> in
              case handle_tracking_account_actual e m' (session st) of
                (s', Inl err) \<Rightarrow>
                  Some ([], st\<lparr> session := s',
                                 ab_entries := ab_entries st @ [(akahu_account_id, m')] \<rparr>,
                        Inl err)
              | (s', Inr n) \<Rightarrow>
                  Some ([], st\<lparr> session := s',
                                 ab_entries := ab_entries st @ [(akahu_account_id, m')],
                                 successful_ab_syncs :=
                                   insert akahu_account_id (successful_ab_syncs st),
                                 ab_uploaded := ab_uploaded st + n \<rparr>,
                        Inr ())))
      else if account_type = ''On Budget'' then
        (case get_all_akahu (feed_of e) akahu_account_id (Some last_reconciled_at) of
           None \<Rightarrow> None
         | Some (Inl err) \<Rightarrow> Some ([], st, Inl err)
         | Some (Inr (akahu_df, reqs)) \<Rightarrow>
             if akahu_df \<noteq> [] then
               (case load_transactions_into_actual e debug_mode akahu_df mapping_entry
                       (session st) of
                  ((s', m'), Inl err) \<Rightarrow>
                    Some ([], st\<lparr> session := s',
                                   ab_entries := ab_entries st @ [(akahu_account_id, m')] \<rparr>,
                          Inl err)
                | ((s', m'), Inr None) \<Rightarrow>
                    Some ([], st\<lparr> session := s',
                                   ab_entries := ab_entries st @ [(akahu_account_id, m')] \<rparr>,
                          Inl TypeError)
                | ((s', m'), Inr (Some n)) \<Rightarrow>
                    Some ([], st\<lparr> session := s',
                                   ab_entries := ab_entries st @ [(akahu_account_id, m')],
                                   successful_ab_syncs :=
                                     insert akahu_account_id (successful_ab_syncs st),
                                   ab_uploaded := ab_uploaded st + n \<rparr>,
                          Inr ()))
             else Some ([], st, Inr ()))
      else Some ([Log LError akahu_account_id], st, Inl NoActiveException))"

text \<open>
  \<^verbatim>\<open>sync_to_ab\<close>. \<open>s0\<close> is the session the client holds, \<open>stored\<close> the mapping file. The
  result carries the log, the state of the pass, the mapping file as the pass leaves it
  and the exception raised or the count returned. A forced refresh downloads the budget
  again before anything else. After the loop, if anything was uploaded, the changes are
  committed and synchronised with the server; a failure there is logged and raised again.
  The mapping file is written only after that, by one call of
  \<^verbatim>\<open>update_mapping_timestamps\<close>, and only if some account is in the successful set.
\<close>

definition sync_to_ab ::
  "env \<Rightarrow> string option \<Rightarrow> account_entry list \<Rightarrow> account_entry list \<Rightarrow> actual_txn list \<Rightarrow>
   (log_line list \<times> ab_state \<times> account_entry list \<times> (error + nat)) option"
where
  "sync_to_ab e debug_mode mapping_list stored s0 =
     (let st0 = \<lparr> session = s0, ab_entries = [], successful_ab_syncs = {}, ab_uploaded = 0 \<rparr>
      in
      if force_refresh e \<and> \<not> download_ok e then Some ([], st0, stored, Inl DownloadFailed)
      else
        (case for_each (step_ab e debug_mode) (sorted_accounts mapping_list) st0 of
           None \<Rightarrow> None
         | Some (l, st, Inl err) \<Rightarrow> Some (l, st, stored, Inl err)
         | Some (l, st, Inr u) \<Rightarrow>
             if 0 < ab_uploaded st \<and> \<not> (commit_ok e (session st) \<and> remote_sync_ok e) then
               Some (l @ [Log LError ''commit''], st, stored, Inl CommitFailed)
             else
               Some (l, st,
                     (if successful_ab_syncs st \<noteq> {}
                      then update_mapping_timestamps (successful_ab_syncs st) {} (now e) stored
                      else stored),
                     Inr (ab_uploaded st))))"

text \<open>The same for destination A: the transactions the service holds, the entries
  mutated in place, \<^verbatim>\<open>successful_syncs\<close> and \<^verbatim>\<open>transactions_uploaded\<close>.\<close>

record ynab_state =
  server :: "ynab_posted list"
  ynab_entries :: "account_entry list"
  successful_syncs :: "string set"
  ynab_uploaded :: nat

text \<open>
  The loop body of \<^verbatim>\<open>sync_to_ynab\<close>. In the Tracking branch the source balance is written
  into the entry without a check; a missing balance then fails in
  \<^verbatim>\<open>log_balance_comparison\<close>, where \<^verbatim>\<open>Decimal("None")\<close> signals \<^verbatim>\<open>InvalidOperation\<close>. The
  source balance is a float and is converted by \<^verbatim>\<open>int(akahu_balance * 1000)\<close>. An unknown
  account type is logged as an error and the loop goes on.
\<close>

definition step_ynab ::
  "env \<Rightarrow> string option \<Rightarrow> account_entry \<Rightarrow> ynab_state \<Rightarrow>
   (log_line list \<times> ynab_state \<times> (error + unit)) option"
where
  "step_ynab e debug_mode entry st =
     (let akahu_account_id = fst entry; mapping_entry = snd entry;
          account_type = get_account_type mapping_entry;
          last_reconciled_at =
            (case ynab_synced_datetime mapping_entry of
               None \<Rightarrow> default_epoch | Some t \<Rightarrow> t)
      in
      if ynab_do_not_map mapping_entry then
        Some ([Log LDebug akahu_account_id], st, Inr ())
      else
        (case (ynab_budget_id mapping_entry, ynab_account_id mapping_entry) of
           (Some budget, Some account) \<Rightarrow>
             if budget = [] \<or> account = [] then
               Some ([Log LWarning akahu_account_id], st, Inr ())
             else if account_type = ''Tracking'' then
               (let bal = akahu_balance_of e akahu_account_id;
                    m' = mapping_entry\<lparr> akahu_balance := bal \<rparr>;
                    st1 = st\<lparr> ynab_entries := ynab_entries st @ [(akahu_account_id, m')] \<rparr>;
                    ynab_balance_milliunits = get_ynab_balance (server st) budget account
                in
                case bal of
                  None \<Rightarrow> Some ([], st1, Inl InvalidOperation)
                | Some akahu_bal \<Rightarrow>
                    (case int_times_1000 akahu_bal of
                       Inl err \<Rightarrow> Some ([], st1, Inl err)
                     | Inr akahu_balance_milliunits \<Rightarrow>
                         if ynab_balance_milliunits \<noteq> akahu_balance_milliunits then
                           (case create_adjustment_txn_ynab e budget account
                                   akahu_balance_milliunits ynab_balance_milliunits
                                   (server st) of
                              (srv', Inl err) \<Rightarrow> Some ([], st1\<lparr> server := srv' \<rparr>, Inl err)
                            | (srv', Inr u) \<Rightarrow>
                                Some ([], st1\<lparr> server := srv',
                                                successful_syncs :=
                                                  insert akahu_account_id (successful_syncs st),
                                                ynab_uploaded := ynab_uploaded st + 1 \<rparr>,
                                      Inr ()))
                         else
                           Some ([], st1\<lparr> successful_syncs :=
                                             insert akahu_account_id (successful_syncs st) \<rparr>,
                                 Inr ())))
             else if account_type = ''On Budget'' then
               (case get_all_akahu (feed_of e) akahu_account_id (Some last_reconciled_at) of
                  None \<Rightarrow> None
                | Some (Inl err) \<Rightarrow> Some ([], st, Inl err)
                | Some (Inr (akahu_df, reqs)) \<Rightarrow>
                    if akahu_df \<noteq> [] then
                      (case clean_txn_for_ynab akahu_df account of
                         Inl err \<Rightarrow> Some ([], st, Inl err)
                       | Inr cleaned_txn \<Rightarrow>
                           (case load_transactions_into_ynab e cleaned_txn budget account
                                   (server st) of
                              (srv', Inl err) \<Rightarrow> Some ([], st\<lparr> server := srv' \<rparr>, Inl err)
                            | (srv', Inr n) \<Rightarrow>
                                Some ([], st\<lparr> server := srv',
                                               successful_syncs :=
                                                 insert akahu_account_id (successful_syncs st),
                                               ynab_uploaded := ynab_uploaded st + n \<rparr>,
                                      Inr ())))
                    else Some ([], st, Inr ()))
             else Some ([Log LError akahu_account_id], st, Inr ())
         | _ \<Rightarrow> Some ([Log LWarning akahu_account_id], st, Inr ())))"

definition sync_to_ynab ::
  "env \<Rightarrow> string option \<Rightarrow> account_entry list \<Rightarrow> account_entry list \<Rightarrow> ynab_posted list \<Rightarrow>
   (log_line list \<times> ynab_state \<times> account_entry list \<times> (error + nat)) option"
where
  "sync_to_ynab e debug_mode mapping_list stored srv0 =
     (let st0 = \<lparr> server = srv0, ynab_entries = [], successful_syncs = {}, ynab_uploaded = 0 \<rparr>
      in
      case for_each (step_ynab e debug_mode) (sorted_accounts mapping_list) st0 of
        None \<Rightarrow> None
      | Some (l, st, Inl err) \<Rightarrow> Some (l, st, stored, Inl err)
      | Some (l, st, Inr u) \<Rightarrow>
          Some (l, st,
                (if successful_syncs st \<noteq> {}
                 then update_mapping_timestamps {} (successful_syncs st) (now e) stored
                 else stored),
                Inr (ynab_uploaded st)))"

text \<open>Notions the statements about a pass use: an entry has both identifiers of a
  destination; the watermark the mapping file holds for an account and a destination
  (\<open>None\<close> when the file has no entry for the account).\<close>

definition has_ids_ab :: "mapping_entry \<Rightarrow> bool" where
  "has_ids_ab m = (truthy (actual_budget_id m) \<and> truthy (actual_account_id m))"

definition has_ids_ynab :: "mapping_entry \<Rightarrow> bool" where
  "has_ids_ynab m = (truthy (ynab_budget_id m) \<and> truthy (ynab_account_id m))"

definition wm_ab :: "account_entry list \<Rightarrow> string \<Rightarrow> int option option" where
  "wm_ab stored k = map_option actual_synced_datetime (map_of stored k)"

definition wm_ynab :: "account_entry list \<Rightarrow> string \<Rightarrow> int option option" where
  "wm_ynab stored k = map_option ynab_synced_datetime (map_of stored k)"

section \<open>Example inputs\<close>

definition txn_a :: akahu_txn where
  "txn_a = \<lparr> txn_id = ''trans_1'', txn_date = DateUTC 1746403200, txn_amount = 12345 / 1000,
             txn_description = ''Coffee'', txn_merchant = NoMerchant \<rparr>"

definition txn_b :: akahu_txn where
  "txn_b = \<lparr> txn_id = ''trans_2'', txn_date = DateUTC 1746489600, txn_amount = - (5 / 2),
             txn_description = ''Bus'', txn_merchant = MerchantDict (Some ''Metro'') \<rparr>"

text \<open>A feed of two pages for every account: the first page hands out the token
  \<^verbatim>\<open>c1\<close>, the page behind any token has no cursor.\<close>

definition two_page_feed :: feed where
  "two_page_feed acct start q =
     (case q of
        None \<Rightarrow> Page \<lparr> items = [txn_a], cursor = CursorDict (NextToken ''c1'') \<rparr>
      | Some c \<Rightarrow> Page \<lparr> items = [txn_b], cursor = CursorAbsent \<rparr>)"

definition example_env :: env where
  "example_env =
     \<lparr> feed_of = two_page_feed, akahu_balance_of = (\<lambda>k. Some (21 / 2)),
       names_ok = True, ruleset_ok = True, ruleset = None, commit_ok = (\<lambda>s. True),
       remote_sync_ok = True, force_refresh = False, download_ok = True,
       ynab_post_ok = (\<lambda>ps. True),
       now = 1746403200, today_local = 20213 \<rparr>"

definition tracking_entry :: mapping_entry where
  "tracking_entry =
     \<lparr> akahu_name = ''Savings'', account_type = Some ''Tracking'',
       actual_budget_id = Some ''budget_b'', actual_account_id = Some ''acct_b'',
       actual_do_not_map = False, actual_synced_datetime = None,
       ynab_budget_id = Some ''budget_a'', ynab_account_id = Some ''acct_a'',
       ynab_do_not_map = False, ynab_synced_datetime = None,
       akahu_balance = Some (21 / 2) \<rparr>"

definition on_budget_entry :: mapping_entry where
  "on_budget_entry =
     \<lparr> akahu_name = ''Everyday'', account_type = Some ''On Budget'',
       actual_budget_id = Some ''budget_b'', actual_account_id = Some ''acct_b1'',
       actual_do_not_map = False, actual_synced_datetime = None,
       ynab_budget_id = Some ''budget_a'', ynab_account_id = Some ''acct_a1'',
       ynab_do_not_map = False, ynab_synced_datetime = None,
       akahu_balance = None \<rparr>"

definition odd_entry :: mapping_entry where
  "odd_entry =
     \<lparr> akahu_name = ''Card'', account_type = Some ''Credit'',
       actual_budget_id = Some ''budget_b'', actual_account_id = Some ''acct_b2'',
       actual_do_not_map = False, actual_synced_datetime = None,
       ynab_budget_id = Some ''budget_a'', ynab_account_id = Some ''acct_a2'',
       ynab_do_not_map = False, ynab_synced_datetime = None,
       akahu_balance = None \<rparr>"

definition two_accounts :: "account_entry list" where
  "two_accounts = [(''acc_t'', tracking_entry), (''acc_x'', odd_entry)]"

definition muted_entry :: mapping_entry where
  "muted_entry =
     \<lparr> akahu_name = ''Joint'', account_type = Some ''On Budget'',
       actual_budget_id = Some ''budget_b'', actual_account_id = Some ''acct_b3'',
       actual_do_not_map = True, actual_synced_datetime = Some 1746403200,
       ynab_budget_id = Some ''budget_a'', ynab_account_id = Some ''acct_a3'',
       ynab_do_not_map = True, ynab_synced_datetime = Some 1746403200,
       akahu_balance = None \<rparr>"

definition unlinked_entry :: mapping_entry where
  "unlinked_entry =
     \<lparr> akahu_name = ''Loan'', account_type = Some ''On Budget'',
       actual_budget_id = Some ''budget_b'', actual_account_id = None,
       actual_do_not_map = False, actual_synced_datetime = None,
       ynab_budget_id = None, ynab_account_id = Some ''acct_a4'',
       ynab_do_not_map = False, ynab_synced_datetime = None,
       akahu_balance = None \<rparr>"

text \<open>A feed with nothing new, and the example dependencies with that feed.\<close>

definition empty_feed :: feed where
  "empty_feed acct start q = Page \<lparr> items = [], cursor = CursorAbsent \<rparr>"

definition quiet_env :: env where
  "quiet_env =
     \<lparr> feed_of = empty_feed, akahu_balance_of = (\<lambda>k. Some (21 / 2)),
       names_ok = True, ruleset_ok = True, ruleset = None, commit_ok = (\<lambda>s. True),
       remote_sync_ok = True, force_refresh = False, download_ok = True,
       ynab_post_ok = (\<lambda>ps. True),
       now = 1746403200, today_local = 20213 \<rparr>"

text \<open>A purchase of 2.01 dollars, and a tracking account whose source balance is 2.01
  dollars while destination A holds 2010 milliunits for it.\<close>

definition txn_c :: akahu_txn where
  "txn_c = \<lparr> txn_id = ''trans_3'', txn_date = DateUTC 1746403200, txn_amount = 201 / 100,
             txn_description = ''Bread'', txn_merchant = NoMerchant \<rparr>"

definition cents_env :: env where
  "cents_env =
     \<lparr> feed_of = two_page_feed, akahu_balance_of = (\<lambda>k. Some (201 / 100)),
       names_ok = True, ruleset_ok = True, ruleset = None, commit_ok = (\<lambda>s. True),
       remote_sync_ok = True, force_refresh = False, download_ok = True,
       ynab_post_ok = (\<lambda>ps. True),
       now = 1746403200, today_local = 20213 \<rparr>"

definition opening_a :: ynab_posted where
  "opening_a =
     \<lparr> p_budget_id = ''budget_a'', p_account_id = ''acct_a'', p_date = Some 20000,
       p_amount = 2010, p_payee_name = ''Opening balance'', p_import_id = None \<rparr>"


section \<open>Priority ordering\<close>







section \<open>Numbers\<close>

lemma py_int_of_int: "py_int (of_int n) = n"
  by (simp add: py_int_def)

lemma py_int_abs_le: "\<bar>of_int (py_int x)\<bar> \<le> \<bar>x\<bar>"
proof (cases "0 \<le> x")
  case True
  then have "0 \<le> \<lfloor>x\<rfloor>" by simp
  moreover have "of_int \<lfloor>x\<rfloor> \<le> x" by simp
  ultimately show ?thesis using True by (simp add: py_int_def)
next
  case False
  then have "\<lceil>x\<rceil> \<le> 0" by (simp add: ceiling_le_iff)
  moreover have "x \<le> of_int \<lceil>x\<rceil>" by simp
  ultimately show ?thesis using False by (simp add: py_int_def)
qed

lemma py_int_close: "\<bar>x - of_int (py_int x)\<bar> < 1"
proof (cases "0 \<le> x")
  case True
  have "of_int \<lfloor>x\<rfloor> \<le> x" "x < of_int \<lfloor>x\<rfloor> + 1" by linarith+
  then show ?thesis using True by (simp add: py_int_def abs_less_iff)
next
  case False
  have "x \<le> of_int \<lceil>x\<rceil>" "of_int \<lceil>x\<rceil> < x + 1" by linarith+
  then show ?thesis using False by (simp add: py_int_def abs_less_iff)
qed

lemma round_half_even_close: "\<bar>of_int (round_half_even y) - y\<bar> \<le> 1 / 2"
proof -
  have fl: "of_int \<lfloor>y\<rfloor> \<le> y" "y < of_int \<lfloor>y\<rfloor> + 1" by linarith+
  then show ?thesis
    unfolding round_half_even_def Let_def
    by (simp add: abs_le_iff)
qed

lemma floor_rat_numeral:
  "\<lfloor>(numeral a :: rat) / numeral b\<rfloor> = numeral a div numeral b"
  "\<lfloor>- ((numeral a :: rat) / numeral b)\<rfloor> = - numeral a div numeral b"
  using floor_divide_of_int_eq [of "numeral a" "numeral b", where ?'a = rat]
    floor_divide_of_int_eq [of "- numeral a" "numeral b", where ?'a = rat]
  by simp_all

lemma ceiling_rat_numeral:
  "\<lceil>(numeral a :: rat) / numeral b\<rceil> = - (- numeral a div numeral b)"
  "\<lceil>- ((numeral a :: rat) / numeral b)\<rceil> = - (numeral a div numeral b)"
  unfolding ceiling_def by (simp_all add: floor_rat_numeral)

lemma decimal_value_e4: "decimal_value (Decimal c (- 4)) = of_int c / 10000"
proof -
  have "(10::rat) powi (- 4) = 1 / 10000"
    by (simp add: power_int_minus field_simps)
  then show ?thesis by (simp add: decimal_value_def)
qed

section \<open>Unit conversion\<close>

lemma int_times_1000_201: "int_times_1000 (201 / 100) = Inr 2009"
  by code_simp

lemma int_times_1000_12345: "int_times_1000 (12345 / 1000) = Inr 12345"
  by code_simp

lemma quantize_amount_12345: "quantize_amount (12345 / 1000) = Inr (Decimal 123450 (- 4))"
  by code_simp

text \<open>
  C4. The claim asks destination A for \<^verbatim>\<open>round(dollars \<times> 1000)\<close>. The transcoder computes
  \<^verbatim>\<open>int(x * 1000)\<close> on a float: for an amount of 2.01 dollars the float product is just
  below 2010 and is cut off to 2009 milliunits, where rounding gives 2010; the frame
  cleaned for destination A carries that 2009. For 12.345 dollars the transcoder gives
  12345 milliunits and destination B gets the decimal 12.3450, as the claim says.
\<close>

theorem ynab_amount_cuts_off_float_product:
  "ynab_amount (201 / 100) = Inr 2009
   \<and> spec_milliunits (201 / 100) = 2010
   \<and> map_sum id (map y_amount) (clean_txn_for_ynab [txn_c] ''acct_a1'') = Inr [2009]
   \<and> ynab_amount (12345 / 1000) = Inr 12345
   \<and> spec_milliunits (12345 / 1000) = 12345
   \<and> quantize_amount (12345 / 1000) = Inr (Decimal 123450 (- 4))"
proof -
  have a: "ynab_amount (201 / 100) = Inr 2009"
    by (simp add: ynab_amount_def int_times_1000_201)
  have b: "spec_milliunits (201 / 100) = 2010" "spec_milliunits (12345 / 1000) = 12345"
    by (simp_all add: spec_milliunits_def)
  have c: "map_sum id (map y_amount) (clean_txn_for_ynab [txn_c] ''acct_a1'') = Inr [2009]"
    by (simp add: clean_txn_for_ynab_def txn_c_def a clean_row_for_ynab_def)
  have d: "ynab_amount (12345 / 1000) = Inr 12345"
    unfolding ynab_amount_def by (rule int_times_1000_12345)
  from a b c d quantize_amount_12345 show ?thesis by blast
qed

section \<open>Pagination\<close>

lemma akahu_pages_returns:
  "returns_pages ask (if nc \<noteq> ''first time'' then Some nc else qc) ps \<Longrightarrow>
   \<exists>qs. akahu_pages ask qc nc res reqs = Some (Inr (res @ concat (map items ps), reqs @ qs))
        \<and> length qs = length ps"
proof (induction ps arbitrary: qc nc res reqs)
  case Nil
  then show ?case by simp
next
  case (Cons p ps)
  let ?q = "if nc \<noteq> ''first time'' then Some nc else qc"
  show ?case
  proof (cases ps)
    case Nil
    with Cons.prems have a: "ask ?q = Page p" and l: "last_page p" by simp_all
    show ?thesis
      using a l Nil
      by (subst akahu_pages.simps)
         (auto simp: Let_def last_page_def split: cursor_field.splits next_field.splits)
  next
    case (Cons p' ps')
    with Cons.prems obtain t where a: "ask ?q = Page p" and ne: "items p \<noteq> []"
      and c: "cursor p = CursorDict (NextToken t)"
      and r: "returns_pages ask (next_query ?q t) ps"
      by (auto split: cursor_field.splits next_field.splits)
    from r have "returns_pages ask (if t \<noteq> ''first time'' then Some t else ?q) ps"
      by (simp add: next_query_def)
    from Cons.IH [OF this, of "res @ items p" "reqs @ [?q]"]
    obtain qs where
      "akahu_pages ask ?q t (res @ items p) (reqs @ [?q]) =
         Some (Inr ((res @ items p) @ concat (map items ps), (reqs @ [?q]) @ qs))"
      and "length qs = length ps" by blast
    then show ?thesis
      using a ne c
      by (subst akahu_pages.simps) (simp add: Let_def)
  qed
qed

text \<open>
  C5. When the feed returns the \<open>N\<close> pages \<open>ps\<close> to the successive requests of a fetch,
  the last of them without a cursor, with a cursor that has no next token, or with zero
  records, the fetch returns: its result is the concatenation of the items of all \<open>N\<close>
  pages in the order served, and it has made exactly \<open>N\<close> requests.
\<close>

theorem get_all_akahu_pagination:
  assumes "returns_pages (fd acct (start_time wm)) None ps"
  shows "\<exists>reqs. get_all_akahu fd acct wm = Some (Inr (concat (map items ps), reqs))
               \<and> length reqs = length ps"
proof -
  let ?ask = "fd acct (start_time wm)"
  from assms
  have "returns_pages ?ask (if ''first time'' \<noteq> ''first time'' then Some ''first time'' else None) ps"
    by simp
  from akahu_pages_returns [OF this, of "[]" "[]"]
  show ?thesis by (simp add: get_all_akahu_def)
qed

theorem get_all_akahu_pagination_witness:
  "\<exists>reqs. get_all_akahu two_page_feed ''acc_1'' None = Some (Inr ([txn_a, txn_b], reqs))
         \<and> length reqs = Suc (Suc 0)"
proof -
  let ?p1 = "\<lparr> items = [txn_a], cursor = CursorDict (NextToken ''c1'') \<rparr>"
  let ?p2 = "\<lparr> items = [txn_b], cursor = CursorAbsent \<rparr>"
  have "returns_pages (two_page_feed ''acc_1'' (start_time None)) None [?p1, ?p2]"
    by (simp add: two_page_feed_def next_query_def last_page_def)
  from get_all_akahu_pagination [of two_page_feed "''acc_1''" None "[?p1, ?p2]", OF this]
  show ?thesis by simp
qed

section \<open>Balance parity of tracking accounts\<close>

lemma round_half_even_of_int: "round_half_even (of_int n) = n"
  by (simp add: round_half_even_def)

lemma cents_of_dollars_cents: "cents_of_dollars (of_int n / 100) = n"
  by (simp add: cents_of_dollars_def round_half_even_of_int)

lemma cents_of_dollars_diff: "cents_of_dollars ((of_int a - of_int b) / 100) = a - b"
  using cents_of_dollars_cents [of "a - b"] by simp

lemma get_actual_balance_append:
  "get_actual_balance (s @ [r]) account =
     get_actual_balance s account
       + (if t_account r = account \<and> \<not> t_tombstone r then t_amount r else 0)"
  by (simp add: get_actual_balance_def)

lemma get_ynab_balance_append:
  "get_ynab_balance (srv @ [p]) budget account =
     get_ynab_balance srv budget account
       + (if p_budget_id p = budget \<and> p_account_id p = account then p_amount p else 0)"
  by (simp add: get_ynab_balance_def)

lemma handle_tracking_equal:
  assumes "actual_account_id m = Some acct" and "akahu_balance m = Some x"
    and "py_int (x * 100) = get_actual_balance s acct"
  shows "handle_tracking_account_actual e m s = (s, Inr 0)"
  using assms by (simp add: handle_tracking_account_actual_def)

lemma handle_tracking_differ:
  fixes e :: env and s :: "actual_txn list" and acct :: string and x :: rat
  assumes "actual_account_id m = Some acct" and "akahu_balance m = Some x"
    and "py_int (x * 100) \<noteq> get_actual_balance s acct"
  defines "adj \<equiv> \<lparr> t_id = length s, t_date = today e, t_account = acct,
      t_payee = ''Balance Adjustment'',
      t_notes = AdjustedFromTo (get_actual_balance s acct) (py_int (x * 100)),
      t_amount = py_int (x * 100) - get_actual_balance s acct,
      t_financial_id = Some (AdjustmentAt (now e)), t_cleared = True, t_tombstone = False \<rparr>"
  shows "handle_tracking_account_actual e m s =
      (s @ [adj], if commit_ok e (s @ [adj]) then Inr 1 else Inl CommitFailed)"
  using assms
  by (simp add: handle_tracking_account_actual_def create_transaction_def Let_def
      cents_of_dollars_diff)

lemma handle_tracking_parity:
  fixes e :: env
  assumes m: "actual_account_id m = Some acct" "akahu_balance m = Some x"
    and ne: "py_int (x * 100) \<noteq> get_actual_balance s acct"
  shows "\<exists>adj. handle_tracking_account_actual e m s =
            (s @ [adj], if commit_ok e (s @ [adj]) then Inr 1 else Inl CommitFailed)
          \<and> t_date adj = today e \<and> t_payee adj = ''Balance Adjustment''
          \<and> t_account adj = acct \<and> \<not> t_tombstone adj
          \<and> t_amount adj = py_int (x * 100) - get_actual_balance s acct
          \<and> get_actual_balance (s @ [adj]) acct = py_int (x * 100)
          \<and> handle_tracking_account_actual e m (s @ [adj]) = (s @ [adj], Inr 0)"
proof -
  let ?adj = "\<lparr> t_id = length s, t_date = today e, t_account = acct,
      t_payee = ''Balance Adjustment'',
      t_notes = AdjustedFromTo (get_actual_balance s acct) (py_int (x * 100)),
      t_amount = py_int (x * 100) - get_actual_balance s acct,
      t_financial_id = Some (AdjustmentAt (now e)), t_cleared = True, t_tombstone = False \<rparr>"
  have h: "handle_tracking_account_actual e m s =
      (s @ [?adj], if commit_ok e (s @ [?adj]) then Inr 1 else Inl CommitFailed)"
    using handle_tracking_differ [OF m ne] .
  have b: "get_actual_balance (s @ [?adj]) acct = py_int (x * 100)"
    by (simp add: get_actual_balance_append)
  have again: "handle_tracking_account_actual e m (s @ [?adj]) = (s @ [?adj], Inr 0)"
    using handle_tracking_equal [OF m] b by simp
  from h b again show ?thesis by (intro exI [of _ ?adj]) simp
qed

lemma ynab_adjustment_parity:
  fixes e :: env
  assumes ne: "a \<noteq> get_ynab_balance srv b ya"
  shows "\<exists>adj. create_adjustment_txn_ynab e b ya a (get_ynab_balance srv b ya) srv =
            (if ynab_post_ok e [adj] then (srv @ [adj], Inr ()) else (srv, Inl PostFailed))
          \<and> p_date adj = Some (today_local e) \<and> p_payee_name adj = ''Balance Adjustment''
          \<and> p_amount adj = a - get_ynab_balance srv b ya
          \<and> get_ynab_balance (srv @ [adj]) b ya = a
          \<and> create_adjustment_txn_ynab e b ya a (get_ynab_balance (srv @ [adj]) b ya)
               (srv @ [adj]) = (srv @ [adj], Inr ())"
proof -
  let ?adj = "\<lparr> p_budget_id = b, p_account_id = ya, p_date = Some (today_local e),
      p_amount = a - get_ynab_balance srv b ya, p_payee_name = ''Balance Adjustment'',
      p_import_id = None \<rparr>"
  have h: "create_adjustment_txn_ynab e b ya a (get_ynab_balance srv b ya) srv =
      (if ynab_post_ok e [?adj] then (srv @ [?adj], Inr ()) else (srv, Inl PostFailed))"
    using ne by (simp add: create_adjustment_txn_ynab_def Let_def)
  have bal: "get_ynab_balance (srv @ [?adj]) b ya = a"
    by (simp add: get_ynab_balance_append)
  have again: "create_adjustment_txn_ynab e b ya a (get_ynab_balance (srv @ [?adj]) b ya)
      (srv @ [?adj]) = (srv @ [?adj], Inr ())"
    by (simp add: bal create_adjustment_txn_ynab_def)
  from h bal again show ?thesis by (intro exI [of _ ?adj]) simp
qed

text \<open>
  C3. Destination A, for a Tracking account whose source balance is 2.01 dollars while the
  destination holds 2010 milliunits: the balances are equal and the claim asks for no
  transaction. The loop body of \<^verbatim>\<open>sync_to_ynab\<close> converts the source balance with
  \<^verbatim>\<open>int(akahu_balance * 1000)\<close>, which is 2009 on the float, posts an adjustment of \<open>-1\<close>
  milliunit and counts it as uploaded; afterwards the destination holds 2009 milliunits,
  which is not the source balance. (For destination B, whose conversion goes through
  \<^verbatim>\<open>Decimal(str(x))\<close>, parity holds: lemmas \<open>handle_tracking_equal\<close> and
  \<open>handle_tracking_parity\<close>.)
\<close>

theorem tracking_adjustment_misses_parity:
  "step_ynab cents_env None (''acc_t'', tracking_entry)
      \<lparr> server = [opening_a], ynab_entries = [], successful_syncs = {}, ynab_uploaded = 0 \<rparr>
    = Some ([],
        \<lparr> server = [opening_a,
                     \<lparr> p_budget_id = ''budget_a'', p_account_id = ''acct_a'',
                       p_date = Some 20213, p_amount = - 1,
                       p_payee_name = ''Balance Adjustment'', p_import_id = None \<rparr>],
          ynab_entries = [(''acc_t'', tracking_entry\<lparr> akahu_balance := Some (201 / 100) \<rparr>)],
          successful_syncs = {''acc_t''}, ynab_uploaded = 1 \<rparr>,
        Inr ())
   \<and> get_ynab_balance [opening_a] ''budget_a'' ''acct_a'' = 2010
   \<and> get_ynab_balance
         [opening_a,
          \<lparr> p_budget_id = ''budget_a'', p_account_id = ''acct_a'',
            p_date = Some 20213, p_amount = - 1,
            p_payee_name = ''Balance Adjustment'', p_import_id = None \<rparr>]
         ''budget_a'' ''acct_a'' = 2009"
proof -
  have b: "get_ynab_balance [opening_a] ''budget_a'' ''acct_a'' = 2010"
    by (simp add: get_ynab_balance_def opening_a_def)
  have t: "ynab_do_not_map tracking_entry = False"
    "ynab_budget_id tracking_entry = Some ''budget_a''"
    "ynab_account_id tracking_entry = Some ''acct_a''"
    "get_account_type tracking_entry = ''Tracking''"
    by (simp_all add: tracking_entry_def get_account_type_def)
  have e: "akahu_balance_of cents_env ''acc_t'' = Some (201 / 100)"
    "ynab_post_ok cents_env = (\<lambda>ps. True)" "today_local cents_env = 20213"
    by (simp_all add: cents_env_def)
  have "step_ynab cents_env None (''acc_t'', tracking_entry)
      \<lparr> server = [opening_a], ynab_entries = [], successful_syncs = {}, ynab_uploaded = 0 \<rparr>
    = Some ([],
        \<lparr> server = [opening_a,
                     \<lparr> p_budget_id = ''budget_a'', p_account_id = ''acct_a'',
                       p_date = Some 20213, p_amount = - 1,
                       p_payee_name = ''Balance Adjustment'', p_import_id = None \<rparr>],
          ynab_entries = [(''acc_t'', tracking_entry\<lparr> akahu_balance := Some (201 / 100) \<rparr>)],
          successful_syncs = {''acc_t''}, ynab_uploaded = 1 \<rparr>,
        Inr ())"
    by (simp add: step_ynab_def Let_def t e b int_times_1000_201
        create_adjustment_txn_ynab_def)
  moreover have "get_ynab_balance
         [opening_a,
          \<lparr> p_budget_id = ''budget_a'', p_account_id = ''acct_a'',
            p_date = Some 20213, p_amount = - 1,
            p_payee_name = ''Balance Adjustment'', p_import_id = None \<rparr>]
         ''budget_a'' ''acct_a'' = 2009"
    by (simp add: get_ynab_balance_def opening_a_def)
  ultimately show ?thesis using b by simp
qed

section \<open>Idempotent import into destination B\<close>
















section \<open>The loop over accounts\<close>

lemma snd_prepend:
  "map_option snd (case X of None \<Rightarrow> None | Some (l', st'', r) \<Rightarrow> Some (l @ l', st'', r))
     = map_option snd X"
  by (cases X) auto

lemma for_each_cons_snd:
  "map_option snd (for_each body (x # xs) st) =
     (case body x st of
        None \<Rightarrow> None
      | Some (l, st', Inl err) \<Rightarrow> Some (st', Inl err)
      | Some (l, st', Inr u) \<Rightarrow> map_option snd (for_each body xs st'))"
proof (cases "body x st")
  case None
  then show ?thesis by simp
next
  case (Some a)
  obtain l st' r where a: "a = (l, st', r)" by (cases a)
  show ?thesis
  proof (cases r)
    case (Inl err)
    then show ?thesis using Some a by simp
  next
    case (Inr u)
    then show ?thesis using Some a by (simp add: snd_prepend)
  qed
qed

text \<open>Entries on which the body only writes log lines can be left out of the list.\<close>

lemma for_each_filter:
  assumes "\<And>x st. x \<in> set xs \<Longrightarrow> P x \<Longrightarrow> \<exists>l. body x st = Some (l, st, Inr ())"
  shows "map_option snd (for_each body xs st) =
         map_option snd (for_each body (filter (\<lambda>x. \<not> P x) xs) st)"
  using assms
proof (induction xs arbitrary: st)
  case Nil
  then show ?case by simp
next
  case (Cons x xs)
  have ih: "map_option snd (for_each body xs st') =
         map_option snd (for_each body (filter (\<lambda>x. \<not> P x) xs) st')" for st'
    by (rule Cons.IH) (use Cons.prems in auto)
  show ?case
  proof (cases "P x")
    case True
    with Cons.prems [of x st] obtain l where "body x st = Some (l, st, Inr ())"
      by auto
    then have "map_option snd (for_each body (x # xs) st) = map_option snd (for_each body xs st)"
      by (simp only: for_each_cons_snd option.case prod.case sum.case)
    moreover have "filter (\<lambda>x. \<not> P x) (x # xs) = filter (\<lambda>x. \<not> P x) xs"
      using True by simp
    ultimately show ?thesis using ih [of st] by (simp only:)
  next
    case False
    have f: "filter (\<lambda>x. \<not> P x) (x # xs) = x # filter (\<lambda>x. \<not> P x) xs"
      using False by simp
    show ?thesis
      by (simp only: f for_each_cons_snd ih)
  qed
qed

text \<open>An entry on which the body always raises keeps the loop from completing.\<close>

lemma for_each_raises:
  assumes "x \<in> set xs" and "\<And>st. \<exists>l st' err. body x st = Some (l, st', Inl err)"
  shows "for_each body xs st \<noteq> Some (l, st', Inr u)"
  using assms(1)
proof (induction xs arbitrary: st l)
  case Nil
  then show ?case by simp
next
  case (Cons y ys)
  show ?case
  proof (cases "body y st")
    case None
    then show ?thesis by simp
  next
    case (Some a)
    obtain l1 st1 r1 where a: "a = (l1, st1, r1)" by (cases a)
    show ?thesis
    proof (cases r1)
      case (Inl err)
      then show ?thesis using Some a by simp
    next
      case (Inr v)
      with assms(2) [of st] Some a have "x \<noteq> y" by auto
      with Cons.prems have "x \<in> set ys" by simp
      from Cons.IH [OF this] have "for_each body ys st1 \<noteq> Some (l2, st', Inr u)" for l2 .
      then show ?thesis using Some a Inr
        by (auto split: option.splits)
    qed
  qed
qed

text \<open>Whatever a completed or aborted loop has added to a set kept in the state was
  added by one of the bodies, on an entry of the list, in a step that went on.\<close>

lemma for_each_added:
  assumes "for_each body xs st = Some (l, st', r)"
    and "k \<in> S st'" and "k \<notin> S st"
    and "\<And>x sa la sb err. body x sa = Some (la, sb, Inl err) \<Longrightarrow> S sb = S sa"
  shows "\<exists>x \<in> set xs. \<exists>sa la sb. body x sa = Some (la, sb, Inr ()) \<and> k \<in> S sb \<and> k \<notin> S sa"
  using assms(1,2,3)
proof (induction xs arbitrary: st l)
  case Nil
  then show ?case by simp
next
  case (Cons y ys)
  from Cons.prems(1) obtain a where Some: "body y st = Some a"
    by (cases "body y st") auto
  obtain l1 st1 r1 where a: "a = (l1, st1, r1)" by (cases a)
  show ?case
  proof (cases r1)
    case (Inl err)
    with Cons.prems(1) Some a have "st' = st1" by simp
    with assms(4) [of y st l1 st1 err] Some a Inl Cons.prems(2,3) show ?thesis by simp
  next
    case (Inr v)
    show ?thesis
    proof (cases "k \<in> S st1")
      case True
      with Some a Inr Cons.prems(3) show ?thesis by auto
    next
      case False
      from Cons.prems(1) Some a Inr obtain l2 where
        "for_each body ys st1 = Some (l2, st', r)"
        by (auto split: option.splits)
      from Cons.IH [OF this Cons.prems(2) False] show ?thesis by auto
    qed
  qed
qed

lemma sorted_accounts_filter:
  "sorted_accounts (filter P ms) = filter P (sorted_accounts ms)"
  by (simp add: sorted_accounts_def filter_sort)

lemma set_sorted_accounts: "set (sorted_accounts ms) = set ms"
  by (simp add: sorted_accounts_def)

section \<open>Steps and passes\<close>

lemma step_ab_do_not_map:
  "actual_do_not_map (snd x) \<Longrightarrow> step_ab e dbg x st = Some ([Log LDebug (fst x)], st, Inr ())"
  by (simp add: step_ab_def Let_def)

lemma step_ynab_do_not_map:
  "ynab_do_not_map (snd x) \<Longrightarrow> step_ynab e dbg x st = Some ([Log LDebug (fst x)], st, Inr ())"
  by (simp add: step_ynab_def Let_def)

lemma step_ab_gap:
  "\<not> actual_do_not_map (snd x) \<Longrightarrow> \<not> has_ids_ab (snd x) \<Longrightarrow>
   step_ab e dbg x st = Some ([Log LWarning (fst x)], st, Inr ())"
  by (simp add: step_ab_def Let_def has_ids_ab_def)

lemma step_ynab_gap:
  "\<not> ynab_do_not_map (snd x) \<Longrightarrow> \<not> has_ids_ynab (snd x) \<Longrightarrow>
   step_ynab e dbg x st = Some ([Log LWarning (fst x)], st, Inr ())"
  by (auto simp: step_ynab_def Let_def has_ids_ynab_def truthy_def split: option.splits)

lemma step_ab_unknown:
  "\<not> actual_do_not_map (snd x) \<Longrightarrow> has_ids_ab (snd x) \<Longrightarrow>
   get_account_type (snd x) \<noteq> ''Tracking'' \<Longrightarrow> get_account_type (snd x) \<noteq> ''On Budget'' \<Longrightarrow>
   step_ab e dbg x st = Some ([Log LError (fst x)], st, Inl NoActiveException)"
  by (simp add: step_ab_def Let_def has_ids_ab_def)

lemma step_ynab_unknown:
  "\<not> ynab_do_not_map (snd x) \<Longrightarrow> has_ids_ynab (snd x) \<Longrightarrow>
   get_account_type (snd x) \<noteq> ''Tracking'' \<Longrightarrow> get_account_type (snd x) \<noteq> ''On Budget'' \<Longrightarrow>
   step_ynab e dbg x st = Some ([Log LError (fst x)], st, Inr ())"
  by (auto simp: step_ynab_def Let_def has_ids_ynab_def truthy_def split: option.splits)

lemma step_ab_empty_fetch:
  "\<not> actual_do_not_map (snd x) \<Longrightarrow> has_ids_ab (snd x) \<Longrightarrow>
   get_account_type (snd x) = ''On Budget'' \<Longrightarrow>
   get_all_akahu (feed_of e) (fst x)
     (Some (case actual_synced_datetime (snd x) of None \<Rightarrow> default_epoch | Some t \<Rightarrow> t))
     = Some (Inr ([], reqs)) \<Longrightarrow>
   step_ab e dbg x st = Some ([], st, Inr ())"
  by (simp add: step_ab_def Let_def has_ids_ab_def)

lemma step_ynab_empty_fetch:
  "\<not> ynab_do_not_map (snd x) \<Longrightarrow> has_ids_ynab (snd x) \<Longrightarrow>
   get_account_type (snd x) = ''On Budget'' \<Longrightarrow>
   get_all_akahu (feed_of e) (fst x)
     (Some (case ynab_synced_datetime (snd x) of None \<Rightarrow> default_epoch | Some t \<Rightarrow> t))
     = Some (Inr ([], reqs)) \<Longrightarrow>
   step_ynab e dbg x st = Some ([], st, Inr ())"
  by (auto simp: step_ynab_def Let_def has_ids_ynab_def truthy_def split: option.splits)

lemma step_ab_error_keeps:
  "step_ab e dbg x sa = Some (la, sb, Inl err) \<Longrightarrow>
   successful_ab_syncs sb = successful_ab_syncs sa"
  unfolding step_ab_def Let_def
  by (auto split: if_splits option.splits sum.splits prod.splits)

lemma step_ynab_error_keeps:
  "step_ynab e dbg x sa = Some (la, sb, Inl err) \<Longrightarrow>
   successful_syncs sb = successful_syncs sa"
  unfolding step_ynab_def Let_def
  by (auto split: if_splits option.splits sum.splits prod.splits)

lemma step_ab_added:
  assumes "step_ab e dbg x sa = Some (la, sb, Inr ())"
    and "k \<in> successful_ab_syncs sb" and "k \<notin> successful_ab_syncs sa"
  shows "k = fst x \<and> \<not> actual_do_not_map (snd x) \<and> has_ids_ab (snd x) \<and>
     (get_account_type (snd x) = ''Tracking'' \<and> akahu_balance_of e (fst x) \<noteq> None
      \<or> get_account_type (snd x) = ''On Budget'' \<and>
        (\<exists>df reqs s' m' n.
           get_all_akahu (feed_of e) (fst x)
             (Some (case actual_synced_datetime (snd x) of None \<Rightarrow> default_epoch | Some t \<Rightarrow> t))
             = Some (Inr (df, reqs)) \<and> df \<noteq> [] \<and>
           load_transactions_into_actual e dbg df (snd x) (session sa)
             = ((s', m'), Inr (Some n))))"
  using assms
  unfolding step_ab_def Let_def has_ids_ab_def
  by (auto split: if_splits option.splits sum.splits prod.splits)

lemma step_ynab_added:
  assumes "step_ynab e dbg x sa = Some (la, sb, Inr ())"
    and "k \<in> successful_syncs sb" and "k \<notin> successful_syncs sa"
  shows "k = fst x \<and> \<not> ynab_do_not_map (snd x) \<and> has_ids_ynab (snd x) \<and>
     (get_account_type (snd x) = ''Tracking'' \<and> akahu_balance_of e (fst x) \<noteq> None
      \<or> get_account_type (snd x) = ''On Budget'' \<and>
        (\<exists>df reqs cleaned srv' n.
           get_all_akahu (feed_of e) (fst x)
             (Some (case ynab_synced_datetime (snd x) of None \<Rightarrow> default_epoch | Some t \<Rightarrow> t))
             = Some (Inr (df, reqs)) \<and> df \<noteq> [] \<and>
           clean_txn_for_ynab df (the (ynab_account_id (snd x))) = Inr cleaned \<and>
           load_transactions_into_ynab e cleaned
             (the (ynab_budget_id (snd x))) (the (ynab_account_id (snd x))) (server sa)
             = (srv', Inr n)))"
  using assms
  unfolding step_ynab_def Let_def has_ids_ynab_def truthy_def
  by (auto split: if_splits option.splits sum.splits prod.splits)

lemma update_wm_ab:
  "wm_ab (update_mapping_timestamps S S' t stored) k =
     (case map_of stored k of
        None \<Rightarrow> None
      | Some m \<Rightarrow> Some (if k \<in> S \<and> \<not> actual_do_not_map m then Some t
                        else actual_synced_datetime m))"
  by (induction stored) (auto simp: wm_ab_def update_mapping_timestamps_def Let_def)

lemma update_wm_ynab:
  "wm_ynab (update_mapping_timestamps S S' t stored) k =
     (case map_of stored k of
        None \<Rightarrow> None
      | Some m \<Rightarrow> Some (if k \<in> S' \<and> \<not> ynab_do_not_map m then Some t
                        else ynab_synced_datetime m))"
  by (induction stored) (auto simp: wm_ynab_def update_mapping_timestamps_def Let_def)

lemma update_none: "update_mapping_timestamps {} {} t stored = stored"
  by (induction stored) (auto simp: update_mapping_timestamps_def Let_def)

lemma same_snd_cases:
  assumes "map_option snd A = map_option snd B"
  obtains "A = None" "B = None"
  | l l' y where "A = Some (l, y)" "B = Some (l', y)"
  using assms by (cases A; cases B) auto

lemma sync_to_ab_filter:
  assumes "\<And>x st. P x \<Longrightarrow> \<exists>l. step_ab e dbg x st = Some (l, st, Inr ())"
  shows "map_option snd (sync_to_ab e dbg ms stored s0) =
         map_option snd (sync_to_ab e dbg (filter (\<lambda>x. \<not> P x) ms) stored s0)"
proof -
  let ?st0 = "\<lparr> session = s0, ab_entries = [], successful_ab_syncs = {}, ab_uploaded = 0 \<rparr>"
  let ?A = "for_each (step_ab e dbg) (sorted_accounts ms) ?st0"
  let ?B = "for_each (step_ab e dbg) (sorted_accounts (filter (\<lambda>x. \<not> P x) ms)) ?st0"
  have "map_option snd ?A = map_option snd ?B"
    unfolding sorted_accounts_filter
    by (rule for_each_filter) (use assms in auto)
  then show ?thesis
  proof (cases rule: same_snd_cases)
    case 1
    then show ?thesis by (simp add: sync_to_ab_def Let_def)
  next
    case (2 l l' y)
    obtain st r where y: "y = (st, r)" by (cases y)
    show ?thesis
      using 2 y by (cases r) (simp_all add: sync_to_ab_def Let_def)
  qed
qed

lemma sync_to_ynab_filter:
  assumes "\<And>x st. P x \<Longrightarrow> \<exists>l. step_ynab e dbg x st = Some (l, st, Inr ())"
  shows "map_option snd (sync_to_ynab e dbg ms stored srv0) =
         map_option snd (sync_to_ynab e dbg (filter (\<lambda>x. \<not> P x) ms) stored srv0)"
proof -
  let ?st0 = "\<lparr> server = srv0, ynab_entries = [], successful_syncs = {}, ynab_uploaded = 0 \<rparr>"
  let ?A = "for_each (step_ynab e dbg) (sorted_accounts ms) ?st0"
  let ?B = "for_each (step_ynab e dbg) (sorted_accounts (filter (\<lambda>x. \<not> P x) ms)) ?st0"
  have "map_option snd ?A = map_option snd ?B"
    unfolding sorted_accounts_filter
    by (rule for_each_filter) (use assms in auto)
  then show ?thesis
  proof (cases rule: same_snd_cases)
    case 1
    then show ?thesis by (simp add: sync_to_ynab_def Let_def)
  next
    case (2 l l' y)
    obtain st r where y: "y = (st, r)" by (cases y)
    show ?thesis
      using 2 y by (cases r) (simp_all add: sync_to_ynab_def Let_def)
  qed
qed

lemma sync_to_ab_stored:
  assumes "sync_to_ab e dbg ms stored s0 = Some (l, st, stored', r)"
  shows "stored' = (case r of
            Inl err \<Rightarrow> stored
          | Inr n \<Rightarrow> update_mapping_timestamps (successful_ab_syncs st) {} (now e) stored)"
  using assms
  by (auto simp: sync_to_ab_def Let_def update_none
      split: if_splits option.splits sum.splits prod.splits)

lemma sync_to_ynab_stored:
  assumes "sync_to_ynab e dbg ms stored srv0 = Some (l, st, stored', r)"
  shows "stored' = (case r of
            Inl err \<Rightarrow> stored
          | Inr n \<Rightarrow> update_mapping_timestamps {} (successful_syncs st) (now e) stored)"
  using assms
  by (auto simp: sync_to_ynab_def Let_def update_none
      split: if_splits option.splits sum.splits prod.splits)

lemma sync_to_ab_successful:
  assumes "sync_to_ab e dbg ms stored s0 = Some (l, st, stored', r)"
    and "k \<in> successful_ab_syncs st"
  shows "\<exists>x \<in> set ms. \<exists>sa la sb. step_ab e dbg x sa = Some (la, sb, Inr ())
            \<and> k \<in> successful_ab_syncs sb \<and> k \<notin> successful_ab_syncs sa"
proof -
  let ?st0 = "\<lparr> session = s0, ab_entries = [], successful_ab_syncs = {}, ab_uploaded = 0 \<rparr>"
  from assms obtain l0 r0 where
    "for_each (step_ab e dbg) (sorted_accounts ms) ?st0 = Some (l0, st, r0)"
    by (auto simp: sync_to_ab_def Let_def split: if_splits option.splits sum.splits prod.splits)
  from for_each_added [of "step_ab e dbg" _ _ _ _ _ k successful_ab_syncs, OF this assms(2)]
  have "\<exists>x \<in> set (sorted_accounts ms). \<exists>sa la sb. step_ab e dbg x sa = Some (la, sb, Inr ())
            \<and> k \<in> successful_ab_syncs sb \<and> k \<notin> successful_ab_syncs sa"
    using step_ab_error_keeps by simp
  then show ?thesis by (simp only: set_sorted_accounts)
qed

lemma sync_to_ynab_successful:
  assumes "sync_to_ynab e dbg ms stored srv0 = Some (l, st, stored', r)"
    and "k \<in> successful_syncs st"
  shows "\<exists>x \<in> set ms. \<exists>sa la sb. step_ynab e dbg x sa = Some (la, sb, Inr ())
            \<and> k \<in> successful_syncs sb \<and> k \<notin> successful_syncs sa"
proof -
  let ?st0 = "\<lparr> server = srv0, ynab_entries = [], successful_syncs = {}, ynab_uploaded = 0 \<rparr>"
  from assms obtain l0 r0 where
    "for_each (step_ynab e dbg) (sorted_accounts ms) ?st0 = Some (l0, st, r0)"
    by (auto simp: sync_to_ynab_def Let_def split: if_splits option.splits sum.splits prod.splits)
  from for_each_added [of "step_ynab e dbg" _ _ _ _ _ k successful_syncs, OF this assms(2)]
  have "\<exists>x \<in> set (sorted_accounts ms). \<exists>sa la sb. step_ynab e dbg x sa = Some (la, sb, Inr ())
            \<and> k \<in> successful_syncs sb \<and> k \<notin> successful_syncs sa"
    using step_ynab_error_keeps by simp
  then show ?thesis by (simp only: set_sorted_accounts)
qed

section \<open>Watermarks of a pass that fails\<close>

lemma example_tracking_step:
  "\<exists>st1. step_ab example_env None (''acc_t'', tracking_entry)
            \<lparr> session = [], ab_entries = [], successful_ab_syncs = {}, ab_uploaded = 0 \<rparr>
          = Some ([], st1, Inr ()) \<and> successful_ab_syncs st1 = {''acc_t''}
            \<and> ab_uploaded st1 = 1"
proof -
  have m: "actual_account_id (tracking_entry\<lparr> akahu_balance := Some (21 / 2) \<rparr>) = Some ''acct_b''"
    "akahu_balance (tracking_entry\<lparr> akahu_balance := Some (21 / 2) \<rparr>) = Some (21 / 2)"
    by (simp_all add: tracking_entry_def)
  have ne: "py_int (21 / 2 * 100) \<noteq> get_actual_balance [] ''acct_b''"
    by (simp add: py_int_def get_actual_balance_def)
  from handle_tracking_parity [OF m ne, of example_env] obtain adj where
    "handle_tracking_account_actual example_env
       (tracking_entry\<lparr> akahu_balance := Some (21 / 2) \<rparr>) [] = ([adj], Inr 1)"
    by (auto simp: example_env_def)
  then show ?thesis
    by (simp add: step_ab_def Let_def get_account_type_def truthy_def)
       (simp add: tracking_entry_def example_env_def)
qed

lemma example_odd_step:
  "step_ab example_env None (''acc_x'', odd_entry) st
     = Some ([Log LError ''acc_x''], st, Inl NoActiveException)"
  using step_ab_unknown [of "(''acc_x'', odd_entry)" example_env None st]
  by (simp add: odd_entry_def has_ids_ab_def truthy_def get_account_type_def)

lemma example_pass_fails:
  "\<exists>l st stored'. sync_to_ab example_env None two_accounts two_accounts []
            = Some (l, st, stored', Inl NoActiveException)
          \<and> ''acc_t'' \<in> successful_ab_syncs st"
proof -
  from example_tracking_step obtain st1 where
    s1: "step_ab example_env None (''acc_t'', tracking_entry)
            \<lparr> session = [], ab_entries = [], successful_ab_syncs = {}, ab_uploaded = 0 \<rparr>
          = Some ([], st1, Inr ())" and su: "successful_ab_syncs st1 = {''acc_t''}"
    by blast
  have so: "sorted_accounts two_accounts = two_accounts"
    by (simp add: sorted_accounts_def two_accounts_def get_account_priority_def
        get_account_type_def tracking_entry_def odd_entry_def)
  have "for_each (step_ab example_env None) two_accounts
          \<lparr> session = [], ab_entries = [], successful_ab_syncs = {}, ab_uploaded = 0 \<rparr>
        = Some ([Log LError ''acc_x''], st1, Inl NoActiveException)"
    by (simp add: two_accounts_def s1 example_odd_step)
  then have "sync_to_ab example_env None two_accounts two_accounts []
            = Some ([Log LError ''acc_x''], st1, two_accounts, Inl NoActiveException)"
    by (simp add: sync_to_ab_def so example_env_def)
  with su show ?thesis by simp
qed

text \<open>
  C2. When a pass over destination B or over destination A ends with an exception, the
  mapping file is exactly what it was before the pass: no stored watermark has moved, not
  even that of an account the pass had already put into its successful set. When a pass
  returns, the file is the old one with the one batch update
  \<^verbatim>\<open>update_mapping_timestamps\<close> applied for the successful set. (What does change during a
  pass is the entry held in memory: \<^verbatim>\<open>load_transactions_into_actual\<close> sets its watermark
  field; that entry is not written to the file.)
\<close>

theorem failed_pass_keeps_watermarks:
  "(sync_to_ab e dbg ms stored s0 = Some (l, st, stored', r) \<longrightarrow>
      stored' = (case r of
                   Inl err \<Rightarrow> stored
                 | Inr n \<Rightarrow> update_mapping_timestamps (successful_ab_syncs st) {} (now e) stored))
   \<and> (sync_to_ynab e dbg ms stored srv0 = Some (l', st', stored'', r') \<longrightarrow>
      stored'' = (case r' of
                   Inl err \<Rightarrow> stored
                 | Inr n \<Rightarrow> update_mapping_timestamps {} (successful_syncs st') (now e) stored))"
  using sync_to_ab_stored [of e dbg ms stored s0 l st stored' r]
    sync_to_ynab_stored [of e dbg ms stored srv0 l' st' stored'' r']
  by blast

theorem failed_pass_keeps_watermarks_witness:
  "\<exists>l st stored'. sync_to_ab example_env None two_accounts two_accounts []
            = Some (l, st, stored', Inl NoActiveException)
          \<and> ''acc_t'' \<in> successful_ab_syncs st \<and> stored' = two_accounts"
proof -
  from example_pass_fails obtain l st stored' where
    p: "sync_to_ab example_env None two_accounts two_accounts []
            = Some (l, st, stored', Inl NoActiveException)"
    and s: "''acc_t'' \<in> successful_ab_syncs st" by blast
  from failed_pass_keeps_watermarks [of example_env None two_accounts two_accounts "[]" l st
      stored' "Inl NoActiveException"] p
  have "stored' = two_accounts" by simp
  with p s show ?thesis by blast
qed

lemma sync_to_ab_success_entry:
  assumes res: "sync_to_ab e dbg ms stored s0 = Some (l, st, stored', r)"
    and k: "k \<in> successful_ab_syncs st"
    and d: "distinct (map fst ms)" and km: "(k, m) \<in> set ms"
  shows "\<not> actual_do_not_map m \<and> has_ids_ab m \<and>
     (get_account_type m = ''Tracking'' \<and> akahu_balance_of e k \<noteq> None
      \<or> get_account_type m = ''On Budget'' \<and>
        (\<exists>df reqs s s' m' n.
           get_all_akahu (feed_of e) k
             (Some (case actual_synced_datetime m of None \<Rightarrow> default_epoch | Some t \<Rightarrow> t))
             = Some (Inr (df, reqs)) \<and> df \<noteq> [] \<and>
           load_transactions_into_actual e dbg df m s = ((s', m'), Inr (Some n))))"
proof -
  from sync_to_ab_successful [OF res k] obtain x sa la sb where
    x: "x \<in> set ms" and s: "step_ab e dbg x sa = Some (la, sb, Inr ())"
    and a: "k \<in> successful_ab_syncs sb" "k \<notin> successful_ab_syncs sa" by blast
  note st = step_ab_added [OF s a]
  then have "fst x = k" by simp
  with x have "(k, snd x) \<in> set ms" by (metis prod.collapse)
  with d km have "snd x = m" by (metis eq_key_imp_eq_value)
  with st show ?thesis by (simp only: \<open>fst x = k\<close>) blast
qed

lemma sync_to_ynab_success_entry:
  assumes res: "sync_to_ynab e dbg ms stored srv0 = Some (l, st, stored', r)"
    and k: "k \<in> successful_syncs st"
    and d: "distinct (map fst ms)" and km: "(k, m) \<in> set ms"
  shows "\<not> ynab_do_not_map m \<and> has_ids_ynab m \<and>
     (get_account_type m = ''Tracking'' \<and> akahu_balance_of e k \<noteq> None
      \<or> get_account_type m = ''On Budget'' \<and>
        (\<exists>df reqs cleaned srv srv' n.
           get_all_akahu (feed_of e) k
             (Some (case ynab_synced_datetime m of None \<Rightarrow> default_epoch | Some t \<Rightarrow> t))
             = Some (Inr (df, reqs)) \<and> df \<noteq> [] \<and>
           clean_txn_for_ynab df (the (ynab_account_id m)) = Inr cleaned \<and>
           load_transactions_into_ynab e cleaned
             (the (ynab_budget_id m)) (the (ynab_account_id m)) srv
             = (srv', Inr n)))"
proof -
  from sync_to_ynab_successful [OF res k] obtain x sa la sb where
    x: "x \<in> set ms" and s: "step_ynab e dbg x sa = Some (la, sb, Inr ())"
    and a: "k \<in> successful_syncs sb" "k \<notin> successful_syncs sa" by blast
  note st = step_ynab_added [OF s a]
  then have "fst x = k" by simp
  with x have "(k, snd x) \<in> set ms" by (metis prod.collapse)
  with d km have "snd x = m" by (metis eq_key_imp_eq_value)
  with st show ?thesis by (simp only: \<open>fst x = k\<close>) blast
qed

lemma sync_to_ab_wm_same:
  assumes res: "sync_to_ab e dbg ms stored s0 = Some (l, st, stored', r)"
    and k: "k \<notin> successful_ab_syncs st \<or> (\<exists>n. r = Inl n)"
  shows "wm_ab stored' k = wm_ab stored k"
proof (cases r)
  case (Inl err)
  with sync_to_ab_stored [OF res] show ?thesis by simp
next
  case (Inr n)
  with k have "k \<notin> successful_ab_syncs st" by simp
  moreover from Inr sync_to_ab_stored [OF res]
  have "stored' = update_mapping_timestamps (successful_ab_syncs st) {} (now e) stored" by simp
  ultimately show ?thesis
    by (simp add: update_wm_ab) (simp add: wm_ab_def split: option.splits)
qed

lemma sync_to_ynab_wm_same:
  assumes res: "sync_to_ynab e dbg ms stored srv0 = Some (l, st, stored', r)"
    and k: "k \<notin> successful_syncs st \<or> (\<exists>n. r = Inl n)"
  shows "wm_ynab stored' k = wm_ynab stored k"
proof (cases r)
  case (Inl err)
  with sync_to_ynab_stored [OF res] show ?thesis by simp
next
  case (Inr n)
  with k have "k \<notin> successful_syncs st" by simp
  moreover from Inr sync_to_ynab_stored [OF res]
  have "stored' = update_mapping_timestamps {} (successful_syncs st) (now e) stored" by simp
  ultimately show ?thesis
    by (simp add: update_wm_ynab) (simp add: wm_ynab_def split: option.splits)
qed

lemma sync_to_ab_never_completes:
  assumes x: "x \<in> set ms"
    and raises: "\<And>st. \<exists>l st' err. step_ab e dbg x st = Some (l, st', Inl err)"
  shows "sync_to_ab e dbg ms stored s0 \<noteq> Some (l, st, stored', Inr n)"
proof
  assume a: "sync_to_ab e dbg ms stored s0 = Some (l, st, stored', Inr n)"
  let ?st0 = "\<lparr> session = s0, ab_entries = [], successful_ab_syncs = {}, ab_uploaded = 0 \<rparr>"
  from a obtain l0 where
    "for_each (step_ab e dbg) (sorted_accounts ms) ?st0 = Some (l0, st, Inr ())"
    by (auto simp: sync_to_ab_def Let_def split: if_splits option.splits sum.splits prod.splits)
  moreover from x have "x \<in> set (sorted_accounts ms)" by (simp only: set_sorted_accounts)
  ultimately show False using for_each_raises [of x _ "step_ab e dbg", OF _ raises] by blast
qed

section \<open>Accounts a pass skips\<close>

lemma empty_pass_ab:
  "sync_to_ab e dbg [] stored s0 =
     (if force_refresh e \<and> \<not> download_ok e
      then Some ([], \<lparr> session = s0, ab_entries = [], successful_ab_syncs = {},
                        ab_uploaded = 0 \<rparr>, stored, Inl DownloadFailed)
      else Some ([], \<lparr> session = s0, ab_entries = [], successful_ab_syncs = {},
                        ab_uploaded = 0 \<rparr>, stored, Inr 0))"
  by (simp add: sync_to_ab_def sorted_accounts_def Let_def)

lemma empty_pass_ynab:
  "sync_to_ynab e dbg [] stored srv0 =
     Some ([], \<lparr> server = srv0, ynab_entries = [], successful_syncs = {},
                  ynab_uploaded = 0 \<rparr>, stored, Inr 0)"
  by (simp add: sync_to_ynab_def sorted_accounts_def Let_def)

text \<open>
  C7. An account whose do-not-sync flag is set for a destination is skipped by the loop
  body before anything else: whatever the feed, the balances and the destination are, the
  body only writes a debug line and leaves the state as it is. A pass therefore behaves
  (state, mapping file and result, everything but the log) exactly as on the mapping list
  without the flagged accounts. Such an account (account ids being unique) is never in the
  successful set, so the mapping file keeps its watermark for that destination; and the
  batch update itself leaves the watermark alone when the stored entry carries the flag,
  whatever set it is called with.
\<close>

theorem do_not_sync_isolation:
  "map_option snd (sync_to_ab e dbg ms stored s0) =
     map_option snd (sync_to_ab e dbg (filter (\<lambda>x. \<not> actual_do_not_map (snd x)) ms) stored s0)
   \<and> map_option snd (sync_to_ynab e dbg ms stored srv0) =
     map_option snd (sync_to_ynab e dbg (filter (\<lambda>x. \<not> ynab_do_not_map (snd x)) ms) stored srv0)
   \<and> (actual_do_not_map m \<longrightarrow> step_ab e dbg (k, m) st = Some ([Log LDebug k], st, Inr ()))
   \<and> (ynab_do_not_map m \<longrightarrow> step_ynab e dbg (k, m) st' = Some ([Log LDebug k], st', Inr ()))
   \<and> (distinct (map fst ms) \<and> (k, m) \<in> set ms \<and> actual_do_not_map m \<and>
        sync_to_ab e dbg ms stored s0 = Some (l, st1, stored1, r) \<longrightarrow>
        k \<notin> successful_ab_syncs st1 \<and> wm_ab stored1 k = wm_ab stored k)
   \<and> (distinct (map fst ms) \<and> (k, m) \<in> set ms \<and> ynab_do_not_map m \<and>
        sync_to_ynab e dbg ms stored srv0 = Some (l', st2, stored2, r') \<longrightarrow>
        k \<notin> successful_syncs st2 \<and> wm_ynab stored2 k = wm_ynab stored k)
   \<and> (map_of stored k = Some m \<and> actual_do_not_map m \<longrightarrow>
        wm_ab (update_mapping_timestamps S S' t stored) k = wm_ab stored k)
   \<and> (map_of stored k = Some m \<and> ynab_do_not_map m \<longrightarrow>
        wm_ynab (update_mapping_timestamps S S' t stored) k = wm_ynab stored k)"
proof (intro conjI impI)
  show "map_option snd (sync_to_ab e dbg ms stored s0) =
     map_option snd (sync_to_ab e dbg (filter (\<lambda>x. \<not> actual_do_not_map (snd x)) ms) stored s0)"
    by (rule sync_to_ab_filter) (simp add: step_ab_do_not_map)
  show "map_option snd (sync_to_ynab e dbg ms stored srv0) =
     map_option snd (sync_to_ynab e dbg (filter (\<lambda>x. \<not> ynab_do_not_map (snd x)) ms) stored srv0)"
    by (rule sync_to_ynab_filter) (simp add: step_ynab_do_not_map)
  show "step_ab e dbg (k, m) st = Some ([Log LDebug k], st, Inr ())" if "actual_do_not_map m"
    using step_ab_do_not_map [of "(k, m)" e dbg st] that by simp
  show "step_ynab e dbg (k, m) st' = Some ([Log LDebug k], st', Inr ())" if "ynab_do_not_map m"
    using step_ynab_do_not_map [of "(k, m)" e dbg st'] that by simp
next
  assume a: "distinct (map fst ms) \<and> (k, m) \<in> set ms \<and> actual_do_not_map m \<and>
        sync_to_ab e dbg ms stored s0 = Some (l, st1, stored1, r)"
  then have res: "sync_to_ab e dbg ms stored s0 = Some (l, st1, stored1, r)" by simp
  from a sync_to_ab_success_entry [OF res, of k m]
  show n: "k \<notin> successful_ab_syncs st1" by blast
  from sync_to_ab_wm_same [OF res, of k] n
  show "wm_ab stored1 k = wm_ab stored k" by simp
next
  assume a: "distinct (map fst ms) \<and> (k, m) \<in> set ms \<and> ynab_do_not_map m \<and>
        sync_to_ynab e dbg ms stored srv0 = Some (l', st2, stored2, r')"
  then have res: "sync_to_ynab e dbg ms stored srv0 = Some (l', st2, stored2, r')" by simp
  from a sync_to_ynab_success_entry [OF res, of k m]
  show n: "k \<notin> successful_syncs st2" by blast
  from sync_to_ynab_wm_same [OF res, of k] n
  show "wm_ynab stored2 k = wm_ynab stored k" by simp
next
  show "wm_ab (update_mapping_timestamps S S' t stored) k = wm_ab stored k"
    if "map_of stored k = Some m \<and> actual_do_not_map m"
    using that by (simp add: update_wm_ab) (simp add: wm_ab_def)
  show "wm_ynab (update_mapping_timestamps S S' t stored) k = wm_ynab stored k"
    if "map_of stored k = Some m \<and> ynab_do_not_map m"
    using that by (simp add: update_wm_ynab) (simp add: wm_ynab_def)
qed

theorem do_not_sync_isolation_witness:
  "map_option snd (sync_to_ab example_env None [(''acc_m'', muted_entry)]
       [(''acc_m'', muted_entry)] []) =
     Some (\<lparr> session = [], ab_entries = [], successful_ab_syncs = {}, ab_uploaded = 0 \<rparr>,
           [(''acc_m'', muted_entry)], Inr 0)
   \<and> step_ab example_env None (''acc_m'', muted_entry)
        \<lparr> session = [], ab_entries = [], successful_ab_syncs = {}, ab_uploaded = 0 \<rparr> =
      Some ([Log LDebug ''acc_m''],
            \<lparr> session = [], ab_entries = [], successful_ab_syncs = {}, ab_uploaded = 0 \<rparr>,
            Inr ())
   \<and> wm_ab (update_mapping_timestamps {''acc_m''} {} 1750000000 [(''acc_m'', muted_entry)])
        ''acc_m'' = Some (Some 1746403200)"
proof -
  have f: "actual_do_not_map muted_entry" by (simp add: muted_entry_def)
  have w: "wm_ab [(''acc_m'', muted_entry)] ''acc_m'' = Some (Some 1746403200)"
    by (simp add: wm_ab_def muted_entry_def)
  have m: "map_of [(''acc_m'', muted_entry)] ''acc_m'' = Some muted_entry" by simp
  have e: "\<not> (force_refresh example_env \<and> \<not> download_ok example_env)"
    by (simp add: example_env_def)
  from do_not_sync_isolation [of example_env None "[(''acc_m'', muted_entry)]"
      "[(''acc_m'', muted_entry)]" "[]" "[]" muted_entry "''acc_m''"
      "\<lparr> session = [], ab_entries = [], successful_ab_syncs = {}, ab_uploaded = 0 \<rparr>"
      _ _ _ _ _ _ _ _ _ "{''acc_m''}" "{}" 1750000000] f w m e
  show ?thesis by (simp add: empty_pass_ab)
qed

text \<open>
  C8. An account that lacks the budget id or the account id of a destination (absent or
  empty) never raises and never ends the pass: the loop body writes one log line, a
  warning (a debug line when the do-not-sync flag is set as well), leaves the state as it
  is and goes on to the next account. So a pass behaves (state, mapping file and result,
  everything but the log) exactly as on the mapping list without those accounts.
\<close>

theorem configuration_gap_skipped:
  "map_option snd (sync_to_ab e dbg ms stored s0) =
     map_option snd (sync_to_ab e dbg (filter (\<lambda>x. has_ids_ab (snd x)) ms) stored s0)
   \<and> map_option snd (sync_to_ynab e dbg ms stored srv0) =
     map_option snd (sync_to_ynab e dbg (filter (\<lambda>x. has_ids_ynab (snd x)) ms) stored srv0)
   \<and> (\<not> has_ids_ab m \<longrightarrow>
        step_ab e dbg (k, m) st =
          Some ([Log (if actual_do_not_map m then LDebug else LWarning) k], st, Inr ()))
   \<and> (\<not> has_ids_ynab m \<longrightarrow>
        step_ynab e dbg (k, m) st' =
          Some ([Log (if ynab_do_not_map m then LDebug else LWarning) k], st', Inr ()))"
proof (intro conjI impI)
  have a: "\<exists>l. step_ab e dbg x st = Some (l, st, Inr ())" if "\<not> has_ids_ab (snd x)" for x st
    using that step_ab_do_not_map [of x e dbg st] step_ab_gap [of x e dbg st]
    by (cases "actual_do_not_map (snd x)") simp_all
  have "map_option snd (sync_to_ab e dbg ms stored s0) =
     map_option snd (sync_to_ab e dbg (filter (\<lambda>x. \<not> \<not> has_ids_ab (snd x)) ms) stored s0)"
    by (rule sync_to_ab_filter) (rule a)
  then show "map_option snd (sync_to_ab e dbg ms stored s0) =
     map_option snd (sync_to_ab e dbg (filter (\<lambda>x. has_ids_ab (snd x)) ms) stored s0)"
    by simp
  have b: "\<exists>l. step_ynab e dbg x st = Some (l, st, Inr ())" if "\<not> has_ids_ynab (snd x)" for x st
    using that step_ynab_do_not_map [of x e dbg st] step_ynab_gap [of x e dbg st]
    by (cases "ynab_do_not_map (snd x)") simp_all
  have "map_option snd (sync_to_ynab e dbg ms stored srv0) =
     map_option snd (sync_to_ynab e dbg (filter (\<lambda>x. \<not> \<not> has_ids_ynab (snd x)) ms) stored srv0)"
    by (rule sync_to_ynab_filter) (rule b)
  then show "map_option snd (sync_to_ynab e dbg ms stored srv0) =
     map_option snd (sync_to_ynab e dbg (filter (\<lambda>x. has_ids_ynab (snd x)) ms) stored srv0)"
    by simp
  show "step_ab e dbg (k, m) st =
          Some ([Log (if actual_do_not_map m then LDebug else LWarning) k], st, Inr ())"
    if "\<not> has_ids_ab m"
    using that step_ab_do_not_map [of "(k, m)" e dbg st] step_ab_gap [of "(k, m)" e dbg st]
    by (cases "actual_do_not_map m") simp_all
  show "step_ynab e dbg (k, m) st' =
          Some ([Log (if ynab_do_not_map m then LDebug else LWarning) k], st', Inr ())"
    if "\<not> has_ids_ynab m"
    using that step_ynab_do_not_map [of "(k, m)" e dbg st'] step_ynab_gap [of "(k, m)" e dbg st']
    by (cases "ynab_do_not_map m") simp_all
qed

theorem configuration_gap_skipped_witness:
  "map_option snd (sync_to_ab example_env None [(''acc_u'', unlinked_entry)]
       [(''acc_u'', unlinked_entry)] []) =
     Some (\<lparr> session = [], ab_entries = [], successful_ab_syncs = {}, ab_uploaded = 0 \<rparr>,
           [(''acc_u'', unlinked_entry)], Inr 0)
   \<and> map_option snd (sync_to_ynab example_env None [(''acc_u'', unlinked_entry)]
       [(''acc_u'', unlinked_entry)] []) =
     Some (\<lparr> server = [], ynab_entries = [], successful_syncs = {}, ynab_uploaded = 0 \<rparr>,
           [(''acc_u'', unlinked_entry)], Inr 0)
   \<and> step_ab example_env None (''acc_u'', unlinked_entry)
        \<lparr> session = [], ab_entries = [], successful_ab_syncs = {}, ab_uploaded = 0 \<rparr> =
      Some ([Log LWarning ''acc_u''],
            \<lparr> session = [], ab_entries = [], successful_ab_syncs = {}, ab_uploaded = 0 \<rparr>,
            Inr ())"
proof -
  have g: "\<not> has_ids_ab unlinked_entry" "\<not> has_ids_ynab unlinked_entry"
    "\<not> actual_do_not_map unlinked_entry"
    by (simp_all add: has_ids_ab_def has_ids_ynab_def truthy_def unlinked_entry_def)
  have e: "\<not> (force_refresh example_env \<and> \<not> download_ok example_env)"
    by (simp add: example_env_def)
  from configuration_gap_skipped [of example_env None "[(''acc_u'', unlinked_entry)]"
      "[(''acc_u'', unlinked_entry)]" "[]" "[]" unlinked_entry "''acc_u''"
      "\<lparr> session = [], ab_entries = [], successful_ab_syncs = {}, ab_uploaded = 0 \<rparr>"]
    g e
  show ?thesis by (simp add: empty_pass_ab empty_pass_ynab)
qed

section \<open>Unknown account types\<close>

text \<open>
  C9. Take an entry whose account type is neither \<^verbatim>\<open>On Budget\<close> nor \<^verbatim>\<open>Tracking\<close>, that is not
  flagged do-not-sync and has both identifiers. The priority function ranks it with the
  Tracking accounts. In the pass over destination B the loop body logs an error and
  reaches the bare \<^verbatim>\<open>raise\<close>: it raises with the state unchanged, and a pass whose mapping
  list holds such an entry never returns a count. In the pass over destination A the
  loop body only logs the error and goes on with the state unchanged, so the pass behaves
  (log aside) as on the list without those entries.
\<close>

theorem unknown_account_type:
  "(\<not> actual_do_not_map m \<and> has_ids_ab m \<and>
      get_account_type m \<noteq> ''On Budget'' \<and> get_account_type m \<noteq> ''Tracking'' \<longrightarrow>
      get_account_priority (k, m) = 1
      \<and> step_ab e dbg (k, m) st = Some ([Log LError k], st, Inl NoActiveException)
      \<and> ((k, m) \<in> set ms \<longrightarrow> sync_to_ab e dbg ms stored s0 \<noteq> Some (l, st1, stored1, Inr n)))
   \<and> (\<not> ynab_do_not_map m \<and> has_ids_ynab m \<and>
      get_account_type m \<noteq> ''On Budget'' \<and> get_account_type m \<noteq> ''Tracking'' \<longrightarrow>
      step_ynab e dbg (k, m) st' = Some ([Log LError k], st', Inr ()))
   \<and> map_option snd (sync_to_ynab e dbg ms stored srv0) =
       map_option snd (sync_to_ynab e dbg
         (filter (\<lambda>x. get_account_type (snd x) = ''On Budget''
                      \<or> get_account_type (snd x) = ''Tracking'') ms) stored srv0)"
proof (intro conjI impI)
  assume a: "\<not> actual_do_not_map m \<and> has_ids_ab m \<and>
      get_account_type m \<noteq> ''On Budget'' \<and> get_account_type m \<noteq> ''Tracking''"
  then show "get_account_priority (k, m) = 1"
    by (simp add: get_account_priority_def)
  from a have s: "step_ab e dbg (k, m) sa = Some ([Log LError k], sa, Inl NoActiveException)"
    for sa
    using step_ab_unknown [of "(k, m)" e dbg sa] by simp
  then show "step_ab e dbg (k, m) st = Some ([Log LError k], st, Inl NoActiveException)" .
  show "sync_to_ab e dbg ms stored s0 \<noteq> Some (l, st1, stored1, Inr n)" if "(k, m) \<in> set ms"
    by (rule sync_to_ab_never_completes [OF that]) (simp add: s)
next
  assume "\<not> ynab_do_not_map m \<and> has_ids_ynab m \<and>
      get_account_type m \<noteq> ''On Budget'' \<and> get_account_type m \<noteq> ''Tracking''"
  then show "step_ynab e dbg (k, m) st' = Some ([Log LError k], st', Inr ())"
    using step_ynab_unknown [of "(k, m)" e dbg st'] by simp
next
  have b: "\<exists>l. step_ynab e dbg x st = Some (l, st, Inr ())"
    if "\<not> (get_account_type (snd x) = ''On Budget'' \<or> get_account_type (snd x) = ''Tracking'')"
    for x st
  proof (cases "ynab_do_not_map (snd x)")
    case True
    then show ?thesis by (simp add: step_ynab_do_not_map)
  next
    case False
    then show ?thesis
      using that step_ynab_gap [of x e dbg st] step_ynab_unknown [of x e dbg st]
      by (cases "has_ids_ynab (snd x)") simp_all
  qed
  have "map_option snd (sync_to_ynab e dbg ms stored srv0) =
       map_option snd (sync_to_ynab e dbg
         (filter (\<lambda>x. \<not> \<not> (get_account_type (snd x) = ''On Budget''
                      \<or> get_account_type (snd x) = ''Tracking'')) ms) stored srv0)"
    by (rule sync_to_ynab_filter) (rule b)
  then show "map_option snd (sync_to_ynab e dbg ms stored srv0) =
       map_option snd (sync_to_ynab e dbg
         (filter (\<lambda>x. get_account_type (snd x) = ''On Budget''
                      \<or> get_account_type (snd x) = ''Tracking'') ms) stored srv0)"
    by simp
qed

theorem unknown_account_type_witness:
  "step_ab example_env None (''acc_x'', odd_entry)
        \<lparr> session = [], ab_entries = [], successful_ab_syncs = {}, ab_uploaded = 0 \<rparr> =
      Some ([Log LError ''acc_x''],
            \<lparr> session = [], ab_entries = [], successful_ab_syncs = {}, ab_uploaded = 0 \<rparr>,
            Inl NoActiveException)
   \<and> sync_to_ab example_env None two_accounts two_accounts [] \<noteq>
       Some ([], \<lparr> session = [], ab_entries = [], successful_ab_syncs = {}, ab_uploaded = 0 \<rparr>,
             two_accounts, Inr 0)
   \<and> step_ynab example_env None (''acc_x'', odd_entry)
        \<lparr> server = [], ynab_entries = [], successful_syncs = {}, ynab_uploaded = 0 \<rparr> =
      Some ([Log LError ''acc_x''],
            \<lparr> server = [], ynab_entries = [], successful_syncs = {}, ynab_uploaded = 0 \<rparr>,
            Inr ())
   \<and> map_option snd (sync_to_ynab example_env None [(''acc_x'', odd_entry)]
         [(''acc_x'', odd_entry)] []) =
       Some (\<lparr> server = [], ynab_entries = [], successful_syncs = {}, ynab_uploaded = 0 \<rparr>,
             [(''acc_x'', odd_entry)], Inr 0)"
proof -
  have o: "\<not> actual_do_not_map odd_entry" "has_ids_ab odd_entry"
    "\<not> ynab_do_not_map odd_entry" "has_ids_ynab odd_entry"
    "get_account_type odd_entry \<noteq> ''On Budget''" "get_account_type odd_entry \<noteq> ''Tracking''"
    by (simp_all add: odd_entry_def has_ids_ab_def has_ids_ynab_def truthy_def
        get_account_type_def)
  have i: "(''acc_x'', odd_entry) \<in> set two_accounts" by (simp add: two_accounts_def)
  from unknown_account_type [of odd_entry "''acc_x''" example_env None
      "\<lparr> session = [], ab_entries = [], successful_ab_syncs = {}, ab_uploaded = 0 \<rparr>"
      two_accounts two_accounts "[]" "[]"
      "\<lparr> session = [], ab_entries = [], successful_ab_syncs = {}, ab_uploaded = 0 \<rparr>"
      two_accounts 0
      "\<lparr> server = [], ynab_entries = [], successful_syncs = {}, ynab_uploaded = 0 \<rparr>"] o i
  have 1: "step_ab example_env None (''acc_x'', odd_entry)
        \<lparr> session = [], ab_entries = [], successful_ab_syncs = {}, ab_uploaded = 0 \<rparr> =
      Some ([Log LError ''acc_x''],
            \<lparr> session = [], ab_entries = [], successful_ab_syncs = {}, ab_uploaded = 0 \<rparr>,
            Inl NoActiveException)"
    and 2: "sync_to_ab example_env None two_accounts two_accounts [] \<noteq>
       Some ([], \<lparr> session = [], ab_entries = [], successful_ab_syncs = {}, ab_uploaded = 0 \<rparr>,
             two_accounts, Inr 0)"
    and 3: "step_ynab example_env None (''acc_x'', odd_entry)
        \<lparr> server = [], ynab_entries = [], successful_syncs = {}, ynab_uploaded = 0 \<rparr> =
      Some ([Log LError ''acc_x''],
            \<lparr> server = [], ynab_entries = [], successful_syncs = {}, ynab_uploaded = 0 \<rparr>,
            Inr ())"
    by simp_all
  from unknown_account_type [of odd_entry "''acc_x''" example_env None _
      "[(''acc_x'', odd_entry)]" "[(''acc_x'', odd_entry)]" _ _ _ _ _ _ "[]"] o
  have 4: "map_option snd (sync_to_ynab example_env None [(''acc_x'', odd_entry)]
         [(''acc_x'', odd_entry)] []) =
       Some (\<lparr> server = [], ynab_entries = [], successful_syncs = {}, ynab_uploaded = 0 \<rparr>,
             [(''acc_x'', odd_entry)], Inr 0)"
    by (simp add: empty_pass_ynab)
  from 1 2 3 4 show ?thesis by blast
qed

section \<open>Accounts with nothing to fetch\<close>

lemma empty_feed_fetch:
  "get_all_akahu empty_feed k wm = Some (Inr ([], [None]))"
  unfolding get_all_akahu_def
  by (subst akahu_pages.simps) (simp add: empty_feed_def)

lemma quiet_pass:
  "\<exists>l st stored'.
     sync_to_ab quiet_env None [(''acc_1'', on_budget_entry)] [(''acc_1'', on_budget_entry)] []
       = Some (l, st, stored', Inr 0)"
proof -
  have f: "feed_of quiet_env = empty_feed" by (simp add: quiet_env_def)
  have o: "\<not> actual_do_not_map on_budget_entry" "has_ids_ab on_budget_entry"
    "get_account_type on_budget_entry = ''On Budget''"
    by (simp_all add: on_budget_entry_def has_ids_ab_def truthy_def get_account_type_def)
  have "step_ab quiet_env None (''acc_1'', on_budget_entry) st = Some ([], st, Inr ())" for st
    by (rule step_ab_empty_fetch [where reqs = "[None]"]) (simp_all add: o f empty_feed_fetch)
  then show ?thesis
    by (simp add: sync_to_ab_def sorted_accounts_def Let_def) (simp add: quiet_env_def)
qed

text \<open>
  C10. Take an On-Budget entry that is not flagged do-not-sync and has both identifiers.
  When its fetch returns no transactions, the loop body leaves the state as it is: the
  account does not enter the successful set. In a pass over a mapping list with unique
  account ids, such an account is not in the successful set at the end, and the mapping
  file keeps its watermark for that destination, also when the pass completes. Conversely,
  when the stored watermark of an On-Budget account differs after a pass, the pass has
  completed, the fetch for that account returned at least one transaction, and loading
  them returned a count. This holds for both destinations.
\<close>

theorem empty_fetch_keeps_watermark:
  "(get_account_type m = ''On Budget'' \<and> \<not> actual_do_not_map m \<and> has_ids_ab m \<and>
      get_all_akahu (feed_of e) k
        (Some (case actual_synced_datetime m of None \<Rightarrow> default_epoch | Some t \<Rightarrow> t))
        = Some (Inr ([], reqs)) \<longrightarrow>
      step_ab e dbg (k, m) st = Some ([], st, Inr ()))
   \<and> (get_account_type m = ''On Budget'' \<and> \<not> ynab_do_not_map m \<and> has_ids_ynab m \<and>
      get_all_akahu (feed_of e) k
        (Some (case ynab_synced_datetime m of None \<Rightarrow> default_epoch | Some t \<Rightarrow> t))
        = Some (Inr ([], reqs)) \<longrightarrow>
      step_ynab e dbg (k, m) st' = Some ([], st', Inr ()))
   \<and> (distinct (map fst ms) \<and> (k, m) \<in> set ms \<and> get_account_type m = ''On Budget'' \<and>
      sync_to_ab e dbg ms stored s0 = Some (l, st1, stored1, r) \<longrightarrow>
      (get_all_akahu (feed_of e) k
         (Some (case actual_synced_datetime m of None \<Rightarrow> default_epoch | Some t \<Rightarrow> t))
         = Some (Inr ([], reqs)) \<longrightarrow>
         k \<notin> successful_ab_syncs st1 \<and> wm_ab stored1 k = wm_ab stored k)
      \<and> (wm_ab stored1 k \<noteq> wm_ab stored k \<longrightarrow>
         (\<exists>n. r = Inr n) \<and>
         (\<exists>df rq s s' m' n.
            get_all_akahu (feed_of e) k
              (Some (case actual_synced_datetime m of None \<Rightarrow> default_epoch | Some t \<Rightarrow> t))
              = Some (Inr (df, rq)) \<and> df \<noteq> [] \<and>
            load_transactions_into_actual e dbg df m s = ((s', m'), Inr (Some n)))))
   \<and> (distinct (map fst ms) \<and> (k, m) \<in> set ms \<and> get_account_type m = ''On Budget'' \<and>
      sync_to_ynab e dbg ms stored srv0 = Some (l', st2, stored2, r') \<longrightarrow>
      (get_all_akahu (feed_of e) k
         (Some (case ynab_synced_datetime m of None \<Rightarrow> default_epoch | Some t \<Rightarrow> t))
         = Some (Inr ([], reqs)) \<longrightarrow>
         k \<notin> successful_syncs st2 \<and> wm_ynab stored2 k = wm_ynab stored k)
      \<and> (wm_ynab stored2 k \<noteq> wm_ynab stored k \<longrightarrow>
         (\<exists>n. r' = Inr n) \<and>
         (\<exists>df rq cleaned srv srv' n.
            get_all_akahu (feed_of e) k
              (Some (case ynab_synced_datetime m of None \<Rightarrow> default_epoch | Some t \<Rightarrow> t))
              = Some (Inr (df, rq)) \<and> df \<noteq> [] \<and>
            clean_txn_for_ynab df (the (ynab_account_id m)) = Inr cleaned \<and>
            load_transactions_into_ynab e cleaned
              (the (ynab_budget_id m)) (the (ynab_account_id m)) srv
              = (srv', Inr n))))"
proof (intro conjI impI)
  assume "get_account_type m = ''On Budget'' \<and> \<not> actual_do_not_map m \<and> has_ids_ab m \<and>
      get_all_akahu (feed_of e) k
        (Some (case actual_synced_datetime m of None \<Rightarrow> default_epoch | Some t \<Rightarrow> t))
        = Some (Inr ([], reqs))"
  then show "step_ab e dbg (k, m) st = Some ([], st, Inr ())"
    using step_ab_empty_fetch [of "(k, m)" e reqs dbg st] by simp
next
  assume "get_account_type m = ''On Budget'' \<and> \<not> ynab_do_not_map m \<and> has_ids_ynab m \<and>
      get_all_akahu (feed_of e) k
        (Some (case ynab_synced_datetime m of None \<Rightarrow> default_epoch | Some t \<Rightarrow> t))
        = Some (Inr ([], reqs))"
  then show "step_ynab e dbg (k, m) st' = Some ([], st', Inr ())"
    using step_ynab_empty_fetch [of "(k, m)" e reqs dbg st'] by simp
next
  assume a: "distinct (map fst ms) \<and> (k, m) \<in> set ms \<and> get_account_type m = ''On Budget'' \<and>
      sync_to_ab e dbg ms stored s0 = Some (l, st1, stored1, r)"
  then have res: "sync_to_ab e dbg ms stored s0 = Some (l, st1, stored1, r)"
    and d: "distinct (map fst ms)" and km: "(k, m) \<in> set ms"
    and ob: "get_account_type m = ''On Budget''" by simp_all
  have ob': "get_account_type m \<noteq> ''Tracking''" using ob by simp
  note entry = sync_to_ab_success_entry [OF res _ d km]
  {
    assume empty: "get_all_akahu (feed_of e) k
         (Some (case actual_synced_datetime m of None \<Rightarrow> default_epoch | Some t \<Rightarrow> t))
         = Some (Inr ([], reqs))"
    show n: "k \<notin> successful_ab_syncs st1"
    proof
      assume "k \<in> successful_ab_syncs st1"
      from entry [OF this] ob' empty show False by auto
    qed
    from sync_to_ab_wm_same [OF res, of k] n
    show "wm_ab stored1 k = wm_ab stored k" by simp
  }
  {
    assume ch: "wm_ab stored1 k \<noteq> wm_ab stored k"
    with sync_to_ab_wm_same [OF res, of k]
    have in_s: "k \<in> successful_ab_syncs st1" and nr: "\<not> (\<exists>n. r = Inl n)" by blast+
    from nr show "\<exists>n. r = Inr n" by (cases r) auto
    from entry [OF in_s] ob'
    show "\<exists>df rq s s' m' n.
            get_all_akahu (feed_of e) k
              (Some (case actual_synced_datetime m of None \<Rightarrow> default_epoch | Some t \<Rightarrow> t))
              = Some (Inr (df, rq)) \<and> df \<noteq> [] \<and>
            load_transactions_into_actual e dbg df m s = ((s', m'), Inr (Some n))"
      by blast
  }
next
  assume a: "distinct (map fst ms) \<and> (k, m) \<in> set ms \<and> get_account_type m = ''On Budget'' \<and>
      sync_to_ynab e dbg ms stored srv0 = Some (l', st2, stored2, r')"
  then have res: "sync_to_ynab e dbg ms stored srv0 = Some (l', st2, stored2, r')"
    and d: "distinct (map fst ms)" and km: "(k, m) \<in> set ms"
    and ob: "get_account_type m = ''On Budget''" by simp_all
  have ob': "get_account_type m \<noteq> ''Tracking''" using ob by simp
  note entry = sync_to_ynab_success_entry [OF res _ d km]
  {
    assume empty: "get_all_akahu (feed_of e) k
         (Some (case ynab_synced_datetime m of None \<Rightarrow> default_epoch | Some t \<Rightarrow> t))
         = Some (Inr ([], reqs))"
    show n: "k \<notin> successful_syncs st2"
    proof
      assume "k \<in> successful_syncs st2"
      from entry [OF this] ob' empty show False by auto
    qed
    from sync_to_ynab_wm_same [OF res, of k] n
    show "wm_ynab stored2 k = wm_ynab stored k" by simp
  }
  {
    assume ch: "wm_ynab stored2 k \<noteq> wm_ynab stored k"
    with sync_to_ynab_wm_same [OF res, of k]
    have in_s: "k \<in> successful_syncs st2" and nr: "\<not> (\<exists>n. r' = Inl n)" by blast+
    from nr show "\<exists>n. r' = Inr n" by (cases r') auto
    from entry [OF in_s] ob'
    show "\<exists>df rq cleaned srv srv' n.
            get_all_akahu (feed_of e) k
              (Some (case ynab_synced_datetime m of None \<Rightarrow> default_epoch | Some t \<Rightarrow> t))
              = Some (Inr (df, rq)) \<and> df \<noteq> [] \<and>
            clean_txn_for_ynab df (the (ynab_account_id m)) = Inr cleaned \<and>
            load_transactions_into_ynab e cleaned
              (the (ynab_budget_id m)) (the (ynab_account_id m)) srv
              = (srv', Inr n)"
      by blast
  }
qed

theorem empty_fetch_keeps_watermark_witness:
  "\<exists>l st stored'.
     sync_to_ab quiet_env None [(''acc_1'', on_budget_entry)] [(''acc_1'', on_budget_entry)] []
       = Some (l, st, stored', Inr 0)
     \<and> ''acc_1'' \<notin> successful_ab_syncs st
     \<and> wm_ab stored' ''acc_1'' = Some None"
proof -
  let ?ms = "[(''acc_1'', on_budget_entry)]"
  let ?st0 = "\<lparr> session = [], ab_entries = [], successful_ab_syncs = {}, ab_uploaded = 0 \<rparr>"
  from quiet_pass obtain l st stored' where
    p: "sync_to_ab quiet_env None ?ms ?ms [] = Some (l, st, stored', Inr 0)" by blast
  have d: "distinct (map fst ?ms)" "(''acc_1'', on_budget_entry) \<in> set ?ms" by simp_all
  have ob: "get_account_type on_budget_entry = ''On Budget''"
    by (simp add: on_budget_entry_def get_account_type_def)
  have f: "get_all_akahu (feed_of quiet_env) ''acc_1''
        (Some (case actual_synced_datetime on_budget_entry of
                 None \<Rightarrow> default_epoch | Some t \<Rightarrow> t))
        = Some (Inr ([], [None]))"
    by (simp add: quiet_env_def empty_feed_fetch)
  have w: "wm_ab ?ms ''acc_1'' = Some None"
    by (simp add: wm_ab_def on_budget_entry_def)
  from empty_fetch_keeps_watermark [of on_budget_entry quiet_env "''acc_1''" "[None]" None
      ?st0 _ ?ms ?ms "[]" l st stored' "Inr 0"] p ob f d
  have "''acc_1'' \<notin> successful_ab_syncs st \<and> wm_ab stored' ''acc_1'' = wm_ab ?ms ''acc_1''"
    by blast
  with p w show ?thesis by auto
qed

end
